theory Spec2Isabelle
  imports Complex_Main "HOL-Library.Finite_Map" "HOL-Library.Sublist"
begin

section \<open>Values\<close>

text \<open>
  The values that \<^verbatim>\<open>response.json()\<close> produces, and Python's \<^verbatim>\<open>None\<close>, which the
  code uses both for JSON \<^verbatim>\<open>null\<close> and for "no result". The code under study never
  looks at the type of a number and Python compares \<^verbatim>\<open>bool\<close>, \<^verbatim>\<open>int\<close> and \<^verbatim>\<open>float\<close>
  by their numeric value (\<^verbatim>\<open>True == 1 == 1.0\<close>), so a number is its value, with
  \<^verbatim>\<open>true\<close> as 1 and \<^verbatim>\<open>false\<close> as 0. An object is a finite map, a list is a list. In this
  representation Python's \<^verbatim>\<open>==\<close> is HOL's \<open>=\<close>. (The non-standard tokens
  \<^verbatim>\<open>NaN\<close> and \<^verbatim>\<open>Infinity\<close> are not JSON and are left out.) A string is the list
  of the bytes of its UTF-8 encoding, so an ASCII character is one \<open>char\<close> below 128 and
  the operations that the code applies to whole strings (\<^verbatim>\<open>==\<close>, \<^verbatim>\<open>in\<close>, \<^verbatim>\<open>replace\<close> of
  one ASCII character by another, \<^verbatim>\<open>lstrip('/')\<close>, concatenation) are the same on the bytes.
\<close>

datatype json =
    JNull
  | JNum rat
  | JStr string
  | JArr "json list"
  | JObj "(string, json) fmap"

text \<open>The exceptions that the dynamic operations on a value raise.\<close>

datatype py_error = TypeError | KeyError | AttributeError

text \<open>\<^verbatim>\<open>bool(x)\<close>: what \<^verbatim>\<open>if x\<close>, \<^verbatim>\<open>x and y\<close>, \<^verbatim>\<open>not x\<close> test.\<close>

fun truthy :: "json \<Rightarrow> bool" where
  "truthy JNull = False"
| "truthy (JNum r) = (r \<noteq> 0)"
| "truthy (JStr s) = (s \<noteq> [])"
| "truthy (JArr xs) = (xs \<noteq> [])"
| "truthy (JObj m) = (fmdom m \<noteq> {||})"

text \<open>
  \<^verbatim>\<open>key in x\<close> for a string key: a key of a dict, an element of a list, a substring of a
  string; a number and \<^verbatim>\<open>None\<close> are not iterable.
\<close>

fun py_contains :: "string \<Rightarrow> json \<Rightarrow> py_error + bool" where
  "py_contains k (JObj m) = Inr (k |\<in>| fmdom m)"
| "py_contains k (JArr xs) = Inr (JStr k \<in> set xs)"
| "py_contains k (JStr s) = Inr (sublist k s)"
| "py_contains k (JNum r) = Inl TypeError"
| "py_contains k JNull = Inl TypeError"

text \<open>\<^verbatim>\<open>x[key]\<close> for a string key: only a dict can be indexed by a string.\<close>

fun py_getitem :: "json \<Rightarrow> string \<Rightarrow> py_error + json" where
  "py_getitem (JObj m) k = (case fmlookup m k of Some v \<Rightarrow> Inr v | None \<Rightarrow> Inl KeyError)"
| "py_getitem (JArr xs) k = Inl TypeError"
| "py_getitem (JStr s) k = Inl TypeError"
| "py_getitem (JNum r) k = Inl TypeError"
| "py_getitem JNull k = Inl TypeError"

text \<open>\<^verbatim>\<open>x.get(key, default)\<close>: a method of dicts only.\<close>

fun py_get :: "json \<Rightarrow> string \<Rightarrow> json \<Rightarrow> py_error + json" where
  "py_get (JObj m) k d = (case fmlookup m k of Some v \<Rightarrow> Inr v | None \<Rightarrow> Inr d)"
| "py_get (JArr xs) k d = Inl AttributeError"
| "py_get (JStr s) k d = Inl AttributeError"
| "py_get (JNum r) k d = Inl AttributeError"
| "py_get JNull k d = Inl AttributeError"

section \<open>The world outside the bot\<close>

text \<open>
  An exception of class \<^verbatim>\<open>Exception\<close> raised by a collaborator, with its \<^verbatim>\<open>str(e)\<close>.
  (A \<^verbatim>\<open>BaseException\<close> such as the cancellation of the coroutine is not caught by the
  code and is not modelled.)
\<close>

datatype exn = Exception string

fun exn_str :: "exn \<Rightarrow> string" where
  "exn_str (Exception s) = s"

text \<open>
  What one \<^verbatim>\<open>session.get(url)\<close> with the read of its body gives: a response with a
  status, whose body \<^verbatim>\<open>response.json()\<close> parses or rejects, a timeout, a client error,
  or another exception.
\<close>

datatype response_body = Parsed json | Unparsable

datatype http_outcome =
    Response nat response_body
  | TimeoutError
  | ClientError
  | UnexpectedError

text \<open>
  What \<^verbatim>\<open>channel.send(embed=embed)\<close> gives: success, \<^verbatim>\<open>discord.Forbidden\<close>, another
  \<^verbatim>\<open>discord.HTTPException\<close>, or an exception of another class.
\<close>

datatype send_outcome = SendOk | Forbidden | HTTPException | SendRaised exn

datatype slot = Creature | Boss

text \<open>A resolved channel object, named by its id.\<close>

datatype channel = Channel int

text \<open>
  The observable actions, oldest first: every HTTP GET with its URL, every sleep with its
  seconds, every send with the helper that made it, the channel, the embed and the outcome.
\<close>

datatype 'e event =
    HttpGet string
  | Sleep nat
  | ChannelSend slot channel 'e send_outcome

type_synonym 'e world = "'e event list"

fun is_get :: "'e event \<Rightarrow> bool" where
  "is_get (HttpGet u) = True"
| "is_get (Sleep n) = False"
| "is_get (ChannelSend s c e r) = False"

fun is_send :: "'e event \<Rightarrow> bool" where
  "is_send (HttpGet u) = False"
| "is_send (Sleep n) = False"
| "is_send (ChannelSend s c e r) = True"

definition num_gets :: "'e world \<Rightarrow> nat" where
  "num_gets w = length (filter is_get w)"

definition num_sends :: "'e world \<Rightarrow> nat" where
  "num_sends w = length (filter is_send w)"

text \<open>The summary dict that \<^verbatim>\<open>get_boosted_creatures\<close> builds: always these three keys.\<close>

record boosted_data =
  boosted_creature :: json
  boosted_boss :: json
  timestamp :: json

text \<open>
  The collaborators. \<open>http_get n url\<close> is the outcome of the GET of \<open>url\<close> made when
  \<open>n\<close> GETs have been made before; \<open>channel_send n ch e\<close> that of a send made after
  \<open>n\<close> sends; \<open>get_channel\<close> is the client's channel cache. The two embed builders are
  the methods of \<^verbatim>\<open>bot/embed_builder.py\<close>, which is not among the sources: they are
  parameters, and may raise. \<open>str_lower\<close> is Python's \<^verbatim>\<open>str.lower\<close>, which follows the
  Unicode case tables (it lowercases non-ASCII letters and can change the length of a
  string): the tables are not reproduced, the function is a parameter, and a property that
  needs more of it than being a function says so.
\<close>

record 'e env =
  http_get :: "nat \<Rightarrow> string \<Rightarrow> http_outcome"
  get_channel :: "int \<Rightarrow> channel option"
  create_creature_embed :: "json \<Rightarrow> json \<Rightarrow> boosted_data \<Rightarrow> exn + 'e"
  create_boss_embed :: "json \<Rightarrow> json \<Rightarrow> boosted_data \<Rightarrow> exn + 'e"
  channel_send :: "nat \<Rightarrow> channel \<Rightarrow> 'e \<Rightarrow> send_outcome"
  str_lower :: "string \<Rightarrow> string"

section \<open>\<^verbatim>\<open>TibiaAPI\<close> (bot/tibia\_api.py)\<close>

definition BASE_URL :: string where
  "BASE_URL = ''https://api.tibiadata.com/v4''"

text \<open>\<^verbatim>\<open>f"{self.BASE_URL}/{endpoint.lstrip('/')}"\<close>\<close>

definition request_url :: "string \<Rightarrow> string" where
  "request_url endpoint = BASE_URL @ ''/'' @ dropWhile (\<lambda>c. c = CHR ''/'') endpoint"

text \<open>
  The loop of \<^verbatim>\<open>_make_request\<close>, \<^verbatim>\<open>for attempt in range(retries + 1)\<close>, from
  \<open>attempt\<close> on. A 200 whose body parses returns the body. A 429 sleeps
  \<open>2 ^ attempt\<close> and continues. Anything else (another status, an exception of the GET
  or of the parse) falls to the end of the body, which sleeps when \<open>attempt < retries\<close>.
  After the loop the result is \<^verbatim>\<open>None\<close>. \<open>retries\<close> is a count; every call in the
  sources uses the default 3.
\<close>

function make_request_loop ::
  "'e env \<Rightarrow> string \<Rightarrow> nat \<Rightarrow> nat \<Rightarrow> 'e world \<Rightarrow> json \<times> 'e world" where
  "make_request_loop env url retries attempt w =
     (if attempt < retries + 1 then
        (let outcome = http_get env (num_gets w) url;
             w1 = w @ [HttpGet url];
             fall_through =
               (if attempt < retries then w1 @ [Sleep (2 ^ attempt)] else w1)
         in case outcome of
              Response status body \<Rightarrow>
                (if status = 200 then
                   (case body of
                      Parsed data \<Rightarrow> (data, w1)
                    | Unparsable \<Rightarrow> make_request_loop env url retries (attempt + 1) fall_through)
                 else if status = 429 then
                   make_request_loop env url retries (attempt + 1) (w1 @ [Sleep (2 ^ attempt)])
                 else make_request_loop env url retries (attempt + 1) fall_through)
            | TimeoutError \<Rightarrow> make_request_loop env url retries (attempt + 1) fall_through
            | ClientError \<Rightarrow> make_request_loop env url retries (attempt + 1) fall_through
            | UnexpectedError \<Rightarrow> make_request_loop env url retries (attempt + 1) fall_through)
      else (JNull, w))"
  by pat_completeness auto
termination
  by (relation "measure (\<lambda>(env, url, retries, attempt, w). retries + 1 - attempt)") auto

definition make_request :: "'e env \<Rightarrow> string \<Rightarrow> nat \<Rightarrow> 'e world \<Rightarrow> json \<times> 'e world" where
  "make_request env endpoint retries w = make_request_loop env (request_url endpoint) retries 0 w"

text \<open>
  \<^verbatim>\<open>get_boosted_creatures\<close>, the part that reads the creature out of the world response:
  \<^verbatim>\<open>if world_data and 'world' in world_data and 'world_information' in world_data['world']\<close>
  then \<^verbatim>\<open>world_data['world']['world_information'].get('boosted_creature')\<close>, otherwise
  \<^verbatim>\<open>None\<close>. \<open>Inl\<close> is an exception, which the \<^verbatim>\<open>except Exception\<close> of the caller turns
  into \<^verbatim>\<open>None\<close>.
\<close>

definition read_boosted_creature :: "json \<Rightarrow> py_error + json" where
  "read_boosted_creature world_data =
     (if \<not> truthy world_data then Inr JNull
      else case py_contains ''world'' world_data of
             Inl e \<Rightarrow> Inl e
           | Inr False \<Rightarrow> Inr JNull
           | Inr True \<Rightarrow>
               (case py_getitem world_data ''world'' of
                  Inl e \<Rightarrow> Inl e
                | Inr wd \<Rightarrow>
                    (case py_contains ''world_information'' wd of
                       Inl e \<Rightarrow> Inl e
                     | Inr False \<Rightarrow> Inr JNull
                     | Inr True \<Rightarrow>
                         (case py_getitem wd ''world_information'' of
                            Inl e \<Rightarrow> Inl e
                          | Inr world_info \<Rightarrow> py_get world_info ''boosted_creature'' JNull))))"

text \<open>
  The part that reads the boss out of the bosses response:
  \<^verbatim>\<open>if bosses_data and 'boostable_bosses' in bosses_data\<close>, then
  \<^verbatim>\<open>if 'boosted' in bosses_info and bosses_info['boosted']\<close>, then
  \<^verbatim>\<open>bosses_info['boosted']['name']\<close>.
\<close>

definition read_boosted_boss :: "json \<Rightarrow> py_error + json" where
  "read_boosted_boss bosses_data =
     (if \<not> truthy bosses_data then Inr JNull
      else case py_contains ''boostable_bosses'' bosses_data of
             Inl e \<Rightarrow> Inl e
           | Inr False \<Rightarrow> Inr JNull
           | Inr True \<Rightarrow>
               (case py_getitem bosses_data ''boostable_bosses'' of
                  Inl e \<Rightarrow> Inl e
                | Inr bosses_info \<Rightarrow>
                    (case py_contains ''boosted'' bosses_info of
                       Inl e \<Rightarrow> Inl e
                     | Inr False \<Rightarrow> Inr JNull
                     | Inr True \<Rightarrow>
                         (case py_getitem bosses_info ''boosted'' of
                            Inl e \<Rightarrow> Inl e
                          | Inr boosted \<Rightarrow>
                              (if truthy boosted then py_getitem boosted ''name''
                               else Inr JNull)))))"

text \<open>
  \<^verbatim>\<open>world_data.get('information', {}).get('timestamp') if world_data else None\<close>
\<close>

definition read_timestamp :: "json \<Rightarrow> py_error + json" where
  "read_timestamp world_data =
     (if truthy world_data then
        (case py_get world_data ''information'' (JObj fmempty) of
           Inl e \<Rightarrow> Inl e
         | Inr information \<Rightarrow> py_get information ''timestamp'' JNull)
      else Inr JNull)"

text \<open>
  \<^verbatim>\<open>get_boosted_creatures\<close>: the world request, the read of the creature, the bosses
  request, the read of the boss, then the summary when one of the two is truthy. An
  exception at any point returns \<^verbatim>\<open>None\<close> from where it is raised, so one raised by the
  read of the creature leaves the bosses request unmade.
\<close>

definition get_boosted_creatures :: "'e env \<Rightarrow> 'e world \<Rightarrow> boosted_data option \<times> 'e world" where
  "get_boosted_creatures env w =
     (let (world_data, w1) = make_request env ''world/Antica'' 3 w in
      case read_boosted_creature world_data of
        Inl e \<Rightarrow> (None, w1)
      | Inr creature \<Rightarrow>
          (let (bosses_data, w2) = make_request env ''boostablebosses'' 3 w1 in
           case read_boosted_boss bosses_data of
             Inl e \<Rightarrow> (None, w2)
           | Inr boss \<Rightarrow>
               (if truthy creature \<or> truthy boss then
                  (case read_timestamp world_data of
                     Inl e \<Rightarrow> (None, w2)
                   | Inr ts \<Rightarrow>
                       (Some \<lparr>boosted_creature = creature, boosted_boss = boss,
                              timestamp = ts\<rparr>, w2))
                else (None, w2))))"

text \<open>
  What \<^verbatim>\<open>str.lower\<close> does to a string of ASCII characters: the letters A to Z become a to
  z, every other character stays. \<open>is_ascii\<close> says that every byte is below 128 (the top
  bit of the character is clear).
\<close>

definition ascii_lower_char :: "char \<Rightarrow> char" where
  "ascii_lower_char c =
     (case map_of (zip ''ABCDEFGHIJKLMNOPQRSTUVWXYZ'' ''abcdefghijklmnopqrstuvwxyz'') c of
        Some d \<Rightarrow> d
      | None \<Rightarrow> c)"

definition ascii_lower :: "string \<Rightarrow> string" where
  "ascii_lower s = map ascii_lower_char s"

definition is_ascii :: "string \<Rightarrow> bool" where
  "is_ascii s = list_all (\<lambda>c. \<not> digit7 c) s"

text \<open>\<^verbatim>\<open>s.replace(' ', '_')\<close>\<close>

definition replace_spaces :: "string \<Rightarrow> string" where
  "replace_spaces s = map (\<lambda>c. if c = CHR '' '' then CHR ''_'' else c) s"

text \<open>\<^verbatim>\<open>formatted_name = creature_name.replace(' ', '_').lower()\<close>\<close>

definition formatted_name :: "'e env \<Rightarrow> string \<Rightarrow> string" where
  "formatted_name env creature_name = str_lower env (replace_spaces creature_name)"

text \<open>
  \<^verbatim>\<open>get_creature_details\<close>. A falsy name (\<^verbatim>\<open>None\<close>, the empty string) returns \<^verbatim>\<open>None\<close> at
  once. A truthy value that is not a string has no \<^verbatim>\<open>replace\<close>: the
  \<^verbatim>\<open>AttributeError\<close> is caught and gives \<^verbatim>\<open>None\<close>, before any request. After the
  request, \<^verbatim>\<open>if data and 'creature' in data\<close> returns \<^verbatim>\<open>data['creature']\<close>, and every other
  case, the exceptions of \<^verbatim>\<open>in\<close> and of the indexing among them, returns \<^verbatim>\<open>None\<close>.
\<close>

definition get_creature_details :: "'e env \<Rightarrow> json \<Rightarrow> 'e world \<Rightarrow> json \<times> 'e world" where
  "get_creature_details env creature_name w =
     (if \<not> truthy creature_name then (JNull, w)
      else case creature_name of
             JStr s \<Rightarrow>
               (let (data, w1) = make_request env (''creature/'' @ formatted_name env s) 3 w in
                if \<not> truthy data then (JNull, w1)
                else case py_contains ''creature'' data of
                       Inl e \<Rightarrow> (JNull, w1)
                     | Inr False \<Rightarrow> (JNull, w1)
                     | Inr True \<Rightarrow>
                         (case py_getitem data ''creature'' of
                            Inl e \<Rightarrow> (JNull, w1)
                          | Inr creature_info \<Rightarrow> (creature_info, w1)))
           | _ \<Rightarrow> (JNull, w))"

section \<open>\<^verbatim>\<open>TibiaBot\<close> (main.py)\<close>

text \<open>The attributes of the bot that the update path reads and writes.\<close>

record bot =
  creature_channel_id :: int
  boss_channel_id :: int
  last_posted_creature :: json
  last_posted_boss :: json

text \<open>\<^verbatim>\<open>TibiaBot.__init__\<close>: the channel ids come from the environment, nothing was posted.\<close>

definition init_bot :: "int \<Rightarrow> int \<Rightarrow> bot" where
  "init_bot creature_id boss_id =
     \<lparr>creature_channel_id = creature_id, boss_channel_id = boss_id,
      last_posted_creature = JNull, last_posted_boss = JNull\<rparr>"

text \<open>The dict that \<^verbatim>\<open>post_boosted_updates\<close> returns.\<close>

record update_result =
  creature_posted :: bool
  boss_posted :: bool
  errors :: "string list"

text \<open>
  The body shared by \<^verbatim>\<open>_post_creature_update\<close> and \<^verbatim>\<open>_post_boss_update\<close>, which differ in
  the channel id, the embed builder and the words of their log lines. The helper returns
  when the id is 0 and when the channel is not found. Otherwise it fetches the details,
  builds the embed and sends it; \<^verbatim>\<open>discord.Forbidden\<close> and \<^verbatim>\<open>discord.HTTPException\<close> are
  caught and logged. The first component is the exception that leaves the helper, if any.
\<close>

definition post_update ::
  "'e env \<Rightarrow> slot \<Rightarrow> int \<Rightarrow> (json \<Rightarrow> json \<Rightarrow> boosted_data \<Rightarrow> exn + 'e) \<Rightarrow>
   json \<Rightarrow> boosted_data \<Rightarrow> 'e world \<Rightarrow> exn option \<times> 'e world" where
  "post_update env sl channel_id create_embed name data w =
     (if channel_id = 0 then (None, w)
      else case get_channel env channel_id of
             None \<Rightarrow> (None, w)
           | Some ch \<Rightarrow>
               (let (details, w1) = get_creature_details env name w in
                case create_embed name details data of
                  Inl e \<Rightarrow> (Some e, w1)
                | Inr em \<Rightarrow>
                    (let outcome = channel_send env (num_sends w1) ch em;
                         w2 = w1 @ [ChannelSend sl ch em outcome]
                     in case outcome of
                          SendOk \<Rightarrow> (None, w2)
                        | Forbidden \<Rightarrow> (None, w2)
                        | HTTPException \<Rightarrow> (None, w2)
                        | SendRaised e \<Rightarrow> (Some e, w2))))"

definition post_creature_update ::
  "'e env \<Rightarrow> bot \<Rightarrow> json \<Rightarrow> boosted_data \<Rightarrow> 'e world \<Rightarrow> exn option \<times> 'e world" where
  "post_creature_update env self creature_name data w =
     post_update env Creature (creature_channel_id self) (create_creature_embed env)
       creature_name data w"

definition post_boss_update ::
  "'e env \<Rightarrow> bot \<Rightarrow> json \<Rightarrow> boosted_data \<Rightarrow> 'e world \<Rightarrow> exn option \<times> 'e world" where
  "post_boss_update env self boss_name data w =
     post_update env Boss (boss_channel_id self) (create_boss_embed env) boss_name data w"

text \<open>\<^verbatim>\<open>f"Error posting boosted updates: {e}"\<close>\<close>

definition error_msg :: "exn \<Rightarrow> string" where
  "error_msg e = ''Error posting boosted updates: '' @ exn_str e"

definition empty_result :: update_result where
  "empty_result = \<lparr>creature_posted = False, boss_posted = False, errors = []\<rparr>"

text \<open>
  The creature block of \<^verbatim>\<open>post_boosted_updates\<close>:
  \<^verbatim>\<open>if creature_name and (force_update or creature_name != self.last_posted_creature)\<close>,
  call the helper, then set \<^verbatim>\<open>last_posted_creature\<close> and the flag. \<open>Inl\<close> is an exception
  on its way to the \<^verbatim>\<open>except Exception\<close> at the end of the function.
\<close>

definition creature_block ::
  "'e env \<Rightarrow> bool \<Rightarrow> boosted_data \<Rightarrow> update_result \<times> bot \<times> 'e world \<Rightarrow>
   exn \<times> update_result \<times> bot \<times> 'e world + update_result \<times> bot \<times> 'e world" where
  "creature_block env force_update data rsw =
     (let (result, self, w) = rsw; creature_name = boosted_creature data in
      if truthy creature_name \<and> (force_update \<or> creature_name \<noteq> last_posted_creature self) then
        (case post_creature_update env self creature_name data w of
           (Some e, w1) \<Rightarrow> Inl (e, result, self, w1)
         | (None, w1) \<Rightarrow>
             Inr (result\<lparr>creature_posted := True\<rparr>,
                  self\<lparr>last_posted_creature := creature_name\<rparr>, w1))
      else Inr (result, self, w))"

text \<open>The boss block, the same with the boss's name, helper, attribute and flag.\<close>

definition boss_block ::
  "'e env \<Rightarrow> bool \<Rightarrow> boosted_data \<Rightarrow> update_result \<times> bot \<times> 'e world \<Rightarrow>
   exn \<times> update_result \<times> bot \<times> 'e world + update_result \<times> bot \<times> 'e world" where
  "boss_block env force_update data rsw =
     (let (result, self, w) = rsw; boss_name = boosted_boss data in
      if truthy boss_name \<and> (force_update \<or> boss_name \<noteq> last_posted_boss self) then
        (case post_boss_update env self boss_name data w of
           (Some e, w1) \<Rightarrow> Inl (e, result, self, w1)
         | (None, w1) \<Rightarrow>
             Inr (result\<lparr>boss_posted := True\<rparr>,
                  self\<lparr>last_posted_boss := boss_name\<rparr>, w1))
      else Inr (result, self, w))"

text \<open>
  The handler \<^verbatim>\<open>except Exception as e\<close>: the message is appended to the errors; the flags
  and attributes set before the exception stay.
\<close>

definition on_exception ::
  "exn \<times> update_result \<times> bot \<times> 'e world \<Rightarrow> update_result \<times> bot \<times> 'e world" where
  "on_exception x =
     (let (e, result, self, w) = x in (result\<lparr>errors := errors result @ [error_msg e]\<rparr>, self, w))"

text \<open>
  \<^verbatim>\<open>post_boosted_updates\<close>: one \<^verbatim>\<open>try\<close> around the fetch of the summary, the creature
  block and the boss block, in this order. Without a summary the result carries one
  message and the function returns at once.
\<close>

definition post_boosted_updates ::
  "'e env \<Rightarrow> bool \<Rightarrow> bot \<Rightarrow> 'e world \<Rightarrow> update_result \<times> bot \<times> 'e world" where
  "post_boosted_updates env force_update self w =
     (case get_boosted_creatures env w of
        (None, w1) \<Rightarrow>
          (empty_result\<lparr>errors := errors empty_result @ [''Failed to fetch boosted data'']\<rparr>,
           self, w1)
      | (Some data, w1) \<Rightarrow>
          (case creature_block env force_update data (empty_result, self, w1) of
             Inl x \<Rightarrow> on_exception x
           | Inr rsw \<Rightarrow>
               (case boss_block env force_update data rsw of
                  Inl x \<Rightarrow> on_exception x
                | Inr rsw' \<Rightarrow> rsw')))"

section \<open>The normalisation that the specification describes\<close>

text \<open>
  The specification's words for the name sent to the details endpoint: "trim, lowercase,
  spaces to underscores". \<open>spec_normalize\<close> follows these words, to be compared with
  \<open>formatted_name\<close>, which follows the code. \<open>whitespace\<close> are the ASCII characters that
  \<^verbatim>\<open>str.strip\<close> removes.
\<close>

definition whitespace :: "char \<Rightarrow> bool" where
  "whitespace c = (c \<in> set [CHR '' '', CHR 0x09, CHR 0x0A, CHR 0x0B, CHR 0x0C, CHR 0x0D])"

definition trim :: "string \<Rightarrow> string" where
  "trim s = rev (dropWhile whitespace (rev (dropWhile whitespace s)))"

definition spec_normalize :: "'e env \<Rightarrow> string \<Rightarrow> string" where
  "spec_normalize env name = replace_spaces (str_lower env (trim name))"

section \<open>Observations on a trace\<close>

text \<open>The events that a call added to the trace it started from.\<close>

definition new_events :: "'e world \<Rightarrow> 'e world \<Rightarrow> 'e world" where
  "new_events w w' = drop (length w) w'"

text \<open>The outcomes of the sends that the helper of a slot made, oldest first.\<close>

fun send_outcomes :: "slot \<Rightarrow> 'e world \<Rightarrow> send_outcome list" where
  "send_outcomes sl [] = []"
| "send_outcomes sl (HttpGet u # w) = send_outcomes sl w"
| "send_outcomes sl (Sleep n # w) = send_outcomes sl w"
| "send_outcomes sl (ChannelSend s c e r # w) =
     (if s = sl then r # send_outcomes sl w else send_outcomes sl w)"

text \<open>The number of sends of a slot that succeeded.\<close>

definition successful_sends :: "slot \<Rightarrow> 'e world \<Rightarrow> nat" where
  "successful_sends sl w = length (filter (\<lambda>r. r = SendOk) (send_outcomes sl w))"

text \<open>A trace of requests only: GETs of the given URLs and sleeps, no send.\<close>

fun fetch_only :: "string list \<Rightarrow> 'e world \<Rightarrow> bool" where
  "fetch_only urls [] = True"
| "fetch_only urls (HttpGet u # w) = (u \<in> set urls \<and> fetch_only urls w)"
| "fetch_only urls (Sleep n # w) = fetch_only urls w"
| "fetch_only urls (ChannelSend s c e r # w) = False"

text \<open>The response has status 200.\<close>

fun is_200 :: "http_outcome \<Rightarrow> bool" where
  "is_200 (Response status body) = (status = 200)"
| "is_200 TimeoutError = False"
| "is_200 ClientError = False"
| "is_200 UnexpectedError = False"


section \<open>Scenarios\<close>

text \<open>
  Concrete collaborators for the worked examples. The embed of a name is the name; every
  channel id resolves; the API and the outcome of the sends are given. The names of the
  examples are ASCII, where \<^verbatim>\<open>str.lower\<close> is \<open>ascii_lower\<close>.
\<close>

definition bot_env ::
  "(nat \<Rightarrow> string \<Rightarrow> http_outcome) \<Rightarrow> (nat \<Rightarrow> channel \<Rightarrow> json \<Rightarrow> send_outcome) \<Rightarrow> json env" where
  "bot_env api send =
     \<lparr>http_get = api, get_channel = (\<lambda>i. Some (Channel i)),
      create_creature_embed = (\<lambda>name details data. Inr name),
      create_boss_embed = (\<lambda>name details data. Inr name),
      channel_send = send, str_lower = ascii_lower\<rparr>"

definition send_ok :: "nat \<Rightarrow> channel \<Rightarrow> json \<Rightarrow> send_outcome" where
  "send_ok n ch em = SendOk"

text \<open>An endpoint that answers 429 twice and then 200.\<close>

definition rate_limited_api :: "nat \<Rightarrow> string \<Rightarrow> http_outcome" where
  "rate_limited_api n url =
     (if n < 2 then Response 429 Unparsable else Response 200 (Parsed (JStr ''ok'')))"

text \<open>An endpoint that answers 500 every time.\<close>

definition failing_api :: "nat \<Rightarrow> string \<Rightarrow> http_outcome" where
  "failing_api n url = Response 500 Unparsable"

text \<open>
  The API on a day when the boosted creature is Wolf and the boosted boss is Ferumbras: the
  world response, the bosses response, and a details response for any creature path.
\<close>

definition wolf_world :: json where
  "wolf_world =
     JObj (fmap_of_list
       [(''world'', JObj (fmap_of_list
           [(''world_information'', JObj (fmap_of_list
               [(''boosted_creature'', JStr ''Wolf'')]))])),
        (''information'', JObj (fmap_of_list [(''timestamp'', JStr ''2024-05-01T08:00:00Z'')]))])"

definition boss_listing :: json where
  "boss_listing =
     JObj (fmap_of_list
       [(''boostable_bosses'', JObj (fmap_of_list
           [(''boosted'', JObj (fmap_of_list [(''name'', JStr ''Ferumbras'')]))]))])"

definition some_details :: json where
  "some_details = JObj (fmap_of_list [(''creature'', JObj (fmap_of_list [(''hitpoints'', JNum 25)]))])"

definition tibia_api :: "nat \<Rightarrow> string \<Rightarrow> http_outcome" where
  "tibia_api n url =
     (if url = ''https://api.tibiadata.com/v4/world/Antica'' then Response 200 (Parsed wolf_world)
      else if url = ''https://api.tibiadata.com/v4/boostablebosses''
        then Response 200 (Parsed boss_listing)
      else Response 200 (Parsed some_details))"

text \<open>The first send is refused with \<^verbatim>\<open>discord.Forbidden\<close>; later ones succeed.\<close>

definition send_forbidden_once :: "nat \<Rightarrow> channel \<Rightarrow> json \<Rightarrow> send_outcome" where
  "send_forbidden_once n ch em = (if n = 0 then Forbidden else SendOk)"

text \<open>
  The first send raises an exception that is not a \<^verbatim>\<open>discord.HTTPException\<close> (the
  connection was reset); later ones succeed.
\<close>

definition send_reset_once :: "nat \<Rightarrow> channel \<Rightarrow> json \<Rightarrow> send_outcome" where
  "send_reset_once n ch em =
     (if n = 0 then SendRaised (Exception ''Connection reset by peer'') else SendOk)"

text \<open>A day on which the world response names no boosted creature.\<close>

definition world_without_creature :: json where
  "world_without_creature =
     JObj (fmap_of_list
       [(''world'', JObj (fmap_of_list
           [(''world_information'', JObj (fmap_of_list [(''players_online'', JNum 7000)]))]))])"

definition bosses_only_api :: "nat \<Rightarrow> string \<Rightarrow> http_outcome" where
  "bosses_only_api n url =
     (if url = ''https://api.tibiadata.com/v4/world/Antica''
        then Response 200 (Parsed world_without_creature)
      else if url = ''https://api.tibiadata.com/v4/boostablebosses''
        then Response 200 (Parsed boss_listing)
      else Response 200 (Parsed some_details))"

text \<open>A bosses response whose boosted entry has no name.\<close>

definition nameless_boss_listing :: json where
  "nameless_boss_listing =
     JObj (fmap_of_list
       [(''boostable_bosses'', JObj (fmap_of_list
           [(''boosted'', JObj (fmap_of_list [(''featured'', JNum 1)]))]))])"

definition nameless_boss_api :: "nat \<Rightarrow> string \<Rightarrow> http_outcome" where
  "nameless_boss_api n url =
     (if url = ''https://api.tibiadata.com/v4/world/Antica'' then Response 200 (Parsed wolf_world)
      else Response 200 (Parsed nameless_boss_listing))"

text \<open>The world endpoint is down; the bosses endpoint answers.\<close>

definition world_down_api :: "nat \<Rightarrow> string \<Rightarrow> http_outcome" where
  "world_down_api n url =
     (if url = ''https://api.tibiadata.com/v4/boostablebosses''
        then Response 200 (Parsed boss_listing)
      else Response 503 Unparsable)"

text \<open>
  The same day, with a world response whose \<^verbatim>\<open>information.timestamp\<close> moves with every
  request (here it is the number of requests made before).
\<close>

definition wolf_world_at :: "nat \<Rightarrow> json" where
  "wolf_world_at n =
     JObj (fmap_of_list
       [(''world'', JObj (fmap_of_list
           [(''world_information'', JObj (fmap_of_list
               [(''boosted_creature'', JStr ''Wolf'')]))])),
        (''information'', JObj (fmap_of_list [(''timestamp'', JNum (of_nat n))]))])"

definition ticking_api :: "nat \<Rightarrow> string \<Rightarrow> http_outcome" where
  "ticking_api n url =
     (if url = ''https://api.tibiadata.com/v4/world/Antica''
        then Response 200 (Parsed (wolf_world_at n))
      else if url = ''https://api.tibiadata.com/v4/boostablebosses''
        then Response 200 (Parsed boss_listing)
      else Response 200 (Parsed some_details))"

section \<open>Properties\<close>

subsection \<open>The retry loop\<close>

declare make_request_loop.simps [simp del]

lemma num_gets_snoc [simp]:
  "num_gets (w @ [HttpGet u]) = Suc (num_gets w)"
  "num_gets (w @ [HttpGet u, Sleep n]) = Suc (num_gets w)"
  by (simp_all add: num_gets_def)

lemma loop_done:
  "\<not> attempt < retries + 1 \<Longrightarrow> make_request_loop env url retries attempt w = (JNull, w)"
  by (simp add: make_request_loop.simps)

lemma loop_hit:
  "attempt \<le> retries \<Longrightarrow> http_get env (num_gets w) url = Response 200 (Parsed d) \<Longrightarrow>
   make_request_loop env url retries attempt w = (d, w @ [HttpGet url])"
  by (subst make_request_loop.simps) (simp add: Let_def)

lemma loop_miss:
  "attempt \<le> retries \<Longrightarrow> \<forall>d. http_get env (num_gets w) url \<noteq> Response 200 (Parsed d) \<Longrightarrow>
   make_request_loop env url retries attempt w =
     make_request_loop env url retries (Suc attempt) (w @ [HttpGet url, Sleep (2 ^ attempt)])
   \<or> make_request_loop env url retries attempt w =
     make_request_loop env url retries (Suc attempt) (w @ [HttpGet url])"
  apply (simp only: make_request_loop.simps [of env url retries attempt w])
  apply (auto simp add: Let_def split: http_outcome.splits response_body.splits)
  done

lemma fetch_only_append [simp]:
  "fetch_only urls (a @ b) = (fetch_only urls a \<and> fetch_only urls b)"
  by (induction urls a rule: fetch_only.induct) auto

lemma fetch_only_mono:
  "fetch_only urls evs \<Longrightarrow> set urls \<subseteq> set urls' \<Longrightarrow> fetch_only urls' evs"
  by (induction urls evs rule: fetch_only.induct) auto

lemma send_outcomes_append [simp]:
  "send_outcomes sl (a @ b) = send_outcomes sl a @ send_outcomes sl b"
  by (induction sl a rule: send_outcomes.induct) auto

lemma fetch_only_no_send:
  "fetch_only urls evs \<Longrightarrow> send_outcomes sl evs = []"
  by (induction urls evs rule: fetch_only.induct) auto

lemma fetch_only_num_sends:
  "fetch_only urls evs \<Longrightarrow> num_sends (w @ evs) = num_sends w"
  by (induction urls evs rule: fetch_only.induct) (auto simp: num_sends_def)

lemma loop_events:
  "\<exists>evs. snd (make_request_loop env url retries attempt w) = w @ evs \<and> fetch_only [url] evs"
proof (induction "retries + 1 - attempt" arbitrary: attempt w)
  case 0
  then show ?case by (simp add: loop_done)
next
  case (Suc n)
  hence le: "attempt \<le> retries" and n: "n = retries + 1 - Suc attempt" by simp_all
  show ?case
  proof (cases "\<exists>d. http_get env (num_gets w) url = Response 200 (Parsed d)")
    case True
    then obtain d where "http_get env (num_gets w) url = Response 200 (Parsed d)" by blast
    from loop_hit [OF le this] show ?thesis by simp
  next
    case False
    hence miss: "\<forall>d. http_get env (num_gets w) url \<noteq> Response 200 (Parsed d)" by simp
    from Suc.hyps(1) [OF n, of "w @ [HttpGet url, Sleep (2 ^ attempt)]"]
    obtain evs1 where e1: "snd (make_request_loop env url retries (Suc attempt)
        (w @ [HttpGet url, Sleep (2 ^ attempt)])) = (w @ [HttpGet url, Sleep (2 ^ attempt)]) @ evs1"
      "fetch_only [url] evs1" by blast
    from Suc.hyps(1) [OF n, of "w @ [HttpGet url]"]
    obtain evs2 where e2: "snd (make_request_loop env url retries (Suc attempt)
        (w @ [HttpGet url])) = (w @ [HttpGet url]) @ evs2"
      "fetch_only [url] evs2" by blast
    from loop_miss [OF le miss] show ?thesis
    proof
      assume "make_request_loop env url retries attempt w =
        make_request_loop env url retries (Suc attempt) (w @ [HttpGet url, Sleep (2 ^ attempt)])"
      with e1 have "snd (make_request_loop env url retries attempt w) =
          w @ ([HttpGet url, Sleep (2 ^ attempt)] @ evs1) \<and>
          fetch_only [url] ([HttpGet url, Sleep (2 ^ attempt)] @ evs1)" by simp
      then show ?thesis by blast
    next
      assume "make_request_loop env url retries attempt w =
        make_request_loop env url retries (Suc attempt) (w @ [HttpGet url])"
      with e2 have "snd (make_request_loop env url retries attempt w) =
          w @ ([HttpGet url] @ evs2) \<and> fetch_only [url] ([HttpGet url] @ evs2)" by simp
      then show ?thesis by blast
    qed
  qed
qed

lemma make_request_events:
  "\<exists>evs. snd (make_request env endpoint retries w) = w @ evs \<and>
         fetch_only [request_url endpoint] evs"
  unfolding make_request_def by (rule loop_events)

lemma get_boosted_creatures_events:
  "\<exists>evs. snd (get_boosted_creatures env w) = w @ evs \<and>
     fetch_only [request_url ''world/Antica'', request_url ''boostablebosses''] evs"
proof -
  obtain d1 w1 where r1: "make_request env ''world/Antica'' 3 w = (d1, w1)" by fastforce
  obtain d2 w2 where r2: "make_request env ''boostablebosses'' 3 w1 = (d2, w2)" by fastforce
  from make_request_events [of env "''world/Antica''" 3 w] r1
  obtain evs1 where e1: "w1 = w @ evs1" "fetch_only [request_url ''world/Antica''] evs1" by auto
  from make_request_events [of env "''boostablebosses''" 3 w1] r2
  obtain evs2 where e2: "w2 = w1 @ evs2" "fetch_only [request_url ''boostablebosses''] evs2" by auto
  let ?U = "[request_url ''world/Antica'', request_url ''boostablebosses'']"
  have f1: "fetch_only ?U evs1" using e1(2) by (rule fetch_only_mono) simp
  have f2: "fetch_only ?U evs2" using e2(2) by (rule fetch_only_mono) simp
  have "snd (get_boosted_creatures env w) = w1 \<or> snd (get_boosted_creatures env w) = w2"
    by (simp add: get_boosted_creatures_def r1 r2 split: sum.splits)
  then show ?thesis
  proof
    assume "snd (get_boosted_creatures env w) = w1"
    with e1 f1 show ?thesis by blast
  next
    assume "snd (get_boosted_creatures env w) = w2"
    hence "snd (get_boosted_creatures env w) = w @ (evs1 @ evs2) \<and> fetch_only ?U (evs1 @ evs2)"
      using e1 e2 f1 f2 by simp
    then show ?thesis by blast
  qed
qed

lemma get_creature_details_events:
  "\<exists>evs. snd (get_creature_details env name w) = w @ evs \<and>
     fetch_only (case name of JStr s \<Rightarrow> [request_url (''creature/'' @ formatted_name env s)] | _ \<Rightarrow> []) evs"
proof (cases name)
  case (JStr s)
  obtain d1 w1 where r1: "make_request env (''creature/'' @ formatted_name env s) 3 w = (d1, w1)"
    by fastforce
  from make_request_events [of env "''creature/'' @ formatted_name env s" 3 w] r1
  obtain evs1 where e1: "w1 = w @ evs1"
    "fetch_only [request_url (''creature/'' @ formatted_name env s)] evs1" by auto
  have "snd (get_creature_details env name w) = w \<or> snd (get_creature_details env name w) = w1"
    by (simp add: get_creature_details_def JStr r1 [simplified] split: sum.splits bool.splits)
  then show ?thesis using e1 JStr by auto
qed (simp_all add: get_creature_details_def)

lemma loop_bound:
  "num_gets (snd (make_request_loop env url retries attempt w))
     \<le> num_gets w + (retries + 1 - attempt)"
proof (induction "retries + 1 - attempt" arbitrary: attempt w)
  case 0
  then show ?case by (simp add: loop_done)
next
  case (Suc n)
  hence le: "attempt \<le> retries" and n: "n = retries + 1 - Suc attempt" by simp_all
  show ?case
  proof (cases "\<exists>d. http_get env (num_gets w) url = Response 200 (Parsed d)")
    case True
    then obtain d where "http_get env (num_gets w) url = Response 200 (Parsed d)" by blast
    from loop_hit [OF le this] le show ?thesis by simp
  next
    case False
    hence "\<forall>d. http_get env (num_gets w) url \<noteq> Response 200 (Parsed d)" by simp
    from loop_miss [OF le this] Suc.hyps(1) [OF n, of "w @ [HttpGet url, Sleep (2 ^ attempt)]"]
      Suc.hyps(1) [OF n, of "w @ [HttpGet url]"] le
    show ?thesis by auto
  qed
qed

lemma loop_first_ok:
  "attempt + k \<le> retries \<Longrightarrow>
   (\<forall>j<k. \<not> is_200 (http_get env (num_gets w + j) url)) \<Longrightarrow>
   http_get env (num_gets w + k) url = Response 200 (Parsed d) \<Longrightarrow>
   fst (make_request_loop env url retries attempt w) = d \<and>
   num_gets (snd (make_request_loop env url retries attempt w)) = num_gets w + k + 1 \<and>
   last (snd (make_request_loop env url retries attempt w)) = HttpGet url"
proof (induction k arbitrary: attempt w)
  case 0
  then show ?case using loop_hit [of attempt retries env w url d] by simp
next
  case (Suc k)
  hence le: "attempt \<le> retries" by simp
  from Suc.prems(2) have "\<not> is_200 (http_get env (num_gets w) url)" by auto
  hence miss: "\<forall>d. http_get env (num_gets w) url \<noteq> Response 200 (Parsed d)" by auto
  have a: "Suc attempt + k \<le> retries" using Suc.prems(1) by simp
  have b: "\<forall>j<k. \<not> is_200 (http_get env (Suc (num_gets w) + j) url)"
    using Suc.prems(2) by auto
  have c: "http_get env (Suc (num_gets w) + k) url = Response 200 (Parsed d)"
    using Suc.prems(3) by simp
  from loop_miss [OF le miss]
    Suc.IH [of "Suc attempt" "w @ [HttpGet url, Sleep (2 ^ attempt)]"]
    Suc.IH [of "Suc attempt" "w @ [HttpGet url]"] a b c
  show ?case by auto
qed

lemma loop_exhaust:
  "(\<forall>j < retries + 1 - attempt. \<forall>d. http_get env (num_gets w + j) url \<noteq> Response 200 (Parsed d)) \<Longrightarrow>
   fst (make_request_loop env url retries attempt w) = JNull \<and>
   num_gets (snd (make_request_loop env url retries attempt w)) = num_gets w + (retries + 1 - attempt)"
proof (induction "retries + 1 - attempt" arbitrary: attempt w)
  case 0
  then show ?case by (simp add: loop_done)
next
  case (Suc n)
  hence le: "attempt \<le> retries" and n: "n = retries + 1 - Suc attempt" by simp_all
  from Suc.prems Suc.hyps(2) have miss: "\<forall>d. http_get env (num_gets w) url \<noteq> Response 200 (Parsed d)"
    by (metis add.right_neutral zero_less_Suc)
  have b: "\<forall>j < retries + 1 - Suc attempt. \<forall>d. http_get env (Suc (num_gets w) + j) url \<noteq> Response 200 (Parsed d)"
  proof (intro allI impI)
    fix j d assume "j < retries + 1 - Suc attempt"
    hence "Suc j < retries + 1 - attempt" using le by simp
    with Suc.prems show "http_get env (Suc (num_gets w) + j) url \<noteq> Response 200 (Parsed d)"
      by (metis add_Suc_shift)
  qed
  from loop_miss [OF le miss]
    Suc.hyps(1) [OF n, of "w @ [HttpGet url, Sleep (2 ^ attempt)]"]
    Suc.hyps(1) [OF n, of "w @ [HttpGet url]"] b le
  show ?case by auto
qed

text \<open>
  Claim C4. For every endpoint and retry budget, \<^verbatim>\<open>_make_request\<close> makes at most
  \<open>retries + 1\<close> GETs. When the first response with status 200 comes at attempt \<open>k\<close>
  within the budget and its body parses to \<open>d\<close>, the result is \<open>d\<close>, exactly \<open>k + 1\<close>
  GETs were made and the GET that was answered is the last event: the loop stops there.
  With 429 on the first two attempts and 200 on the third, and a budget of 3, the result is
  the parsed body after exactly 3 GETs. With 500 on every attempt and a budget of 2, the
  result is \<^verbatim>\<open>None\<close> after exactly 3 GETs.
\<close>

theorem make_request_attempts:
  "num_gets (snd (make_request env endpoint retries w)) \<le> num_gets w + (retries + 1) \<and>
   (\<forall>k d. k \<le> retries \<longrightarrow>
      (\<forall>j<k. \<not> is_200 (http_get env (num_gets w + j) (request_url endpoint))) \<longrightarrow>
      http_get env (num_gets w + k) (request_url endpoint) = Response 200 (Parsed d) \<longrightarrow>
      fst (make_request env endpoint retries w) = d \<and>
      num_gets (snd (make_request env endpoint retries w)) = num_gets w + k + 1 \<and>
      last (snd (make_request env endpoint retries w)) = HttpGet (request_url endpoint)) \<and>
   ((\<forall>j<2. \<exists>b. http_get env (num_gets w + j) (request_url endpoint) = Response 429 b) \<longrightarrow>
      http_get env (num_gets w + 2) (request_url endpoint) = Response 200 (Parsed body) \<longrightarrow>
      fst (make_request env endpoint 3 w) = body \<and>
      num_gets (snd (make_request env endpoint 3 w)) = num_gets w + 3) \<and>
   ((\<forall>j<3. \<exists>b. http_get env (num_gets w + j) (request_url endpoint) = Response 500 b) \<longrightarrow>
      fst (make_request env endpoint 2 w) = JNull \<and>
      num_gets (snd (make_request env endpoint 2 w)) = num_gets w + 3)"
proof (intro conjI allI impI)
  show "num_gets (snd (make_request env endpoint retries w)) \<le> num_gets w + (retries + 1)"
    using loop_bound [of env "request_url endpoint" retries 0 w] by (simp add: make_request_def)
next
  fix k d
  assume k: "k \<le> retries"
    and before: "\<forall>j<k. \<not> is_200 (http_get env (num_gets w + j) (request_url endpoint))"
    and hit: "http_get env (num_gets w + k) (request_url endpoint) = Response 200 (Parsed d)"
  from k have "0 + k \<le> retries" by simp
  from loop_first_ok [OF this before hit]
  show "fst (make_request env endpoint retries w) = d"
    and "num_gets (snd (make_request env endpoint retries w)) = num_gets w + k + 1"
    and "last (snd (make_request env endpoint retries w)) = HttpGet (request_url endpoint)"
    by (simp_all add: make_request_def)
next
  assume limited: "\<forall>j<2. \<exists>b. http_get env (num_gets w + j) (request_url endpoint) = Response 429 b"
    and hit: "http_get env (num_gets w + 2) (request_url endpoint) = Response 200 (Parsed body)"
  have before: "\<forall>j<2. \<not> is_200 (http_get env (num_gets w + j) (request_url endpoint))"
  proof (intro allI impI)
    fix j :: nat assume "j < 2"
    with limited obtain b where "http_get env (num_gets w + j) (request_url endpoint) = Response 429 b"
      by blast
    then show "\<not> is_200 (http_get env (num_gets w + j) (request_url endpoint))" by simp
  qed
  have "0 + 2 \<le> (3::nat)" by simp
  from loop_first_ok [OF this before hit]
  show "fst (make_request env endpoint 3 w) = body"
    and "num_gets (snd (make_request env endpoint 3 w)) = num_gets w + 3"
    by (simp_all add: make_request_def)
next
  assume failing: "\<forall>j<3. \<exists>b. http_get env (num_gets w + j) (request_url endpoint) = Response 500 b"
  have "\<forall>j < 2 + 1 - (0::nat). \<forall>d. http_get env (num_gets w + j) (request_url endpoint)
          \<noteq> Response 200 (Parsed d)"
  proof (intro allI impI)
    fix j :: nat and d assume "j < 2 + 1 - 0"
    hence "j < 3" by simp
    with failing obtain b where "http_get env (num_gets w + j) (request_url endpoint) = Response 500 b"
      by blast
    then show "http_get env (num_gets w + j) (request_url endpoint) \<noteq> Response 200 (Parsed d)"
      by simp
  qed
  from loop_exhaust [OF this]
  show "fst (make_request env endpoint 2 w) = JNull"
    and "num_gets (snd (make_request env endpoint 2 w)) = num_gets w + 3"
    by (simp_all add: make_request_def)
qed

theorem make_request_attempts_witness:
  "fst (make_request (bot_env rate_limited_api send_ok) ''boostablebosses'' 3 []) = JStr ''ok'' \<and>
   num_gets (snd (make_request (bot_env rate_limited_api send_ok) ''boostablebosses'' 3 [])) = 3 \<and>
   last (snd (make_request (bot_env rate_limited_api send_ok) ''boostablebosses'' 3 []))
     = HttpGet ''https://api.tibiadata.com/v4/boostablebosses'' \<and>
   fst (make_request (bot_env failing_api send_ok) ''boostablebosses'' 2 []) = JNull \<and>
   num_gets (snd (make_request (bot_env failing_api send_ok) ''boostablebosses'' 2 [])) = 3"
proof -
  note first_200 =
    make_request_attempts [of "bot_env rate_limited_api send_ok" "''boostablebosses''" 3 "[]",
      THEN conjunct2, THEN conjunct1, rule_format, of 2 "JStr ''ok''"]
  note exhausted =
    make_request_attempts [of "bot_env failing_api send_ok" "''boostablebosses''" 2 "[]",
      THEN conjunct2, THEN conjunct2, THEN conjunct2, rule_format]
  have "fst (make_request (bot_env rate_limited_api send_ok) ''boostablebosses'' 3 []) = JStr ''ok'' \<and>
    num_gets (snd (make_request (bot_env rate_limited_api send_ok) ''boostablebosses'' 3 []))
      = num_gets ([] :: json world) + 2 + 1 \<and>
    last (snd (make_request (bot_env rate_limited_api send_ok) ''boostablebosses'' 3 []))
      = HttpGet (request_url ''boostablebosses'')"
    by (rule first_200) (simp_all add: bot_env_def rate_limited_api_def num_gets_def)
  moreover
  have "fst (make_request (bot_env failing_api send_ok) ''boostablebosses'' 2 []) = JNull \<and>
    num_gets (snd (make_request (bot_env failing_api send_ok) ''boostablebosses'' 2 []))
      = num_gets ([] :: json world) + 3"
    by (rule exhausted) (simp add: bot_env_def failing_api_def)
  ultimately show ?thesis
    by (simp add: num_gets_def request_url_def BASE_URL_def)
qed

subsection \<open>The update path\<close>

lemma post_update_cases:
  assumes "post_update env sl cid mk name data w = (x, w')"
  shows "(x = None \<and> w' = w \<and> (cid = 0 \<or> get_channel env cid = None))
       \<or> (\<exists>e. x = Some e \<and> cid \<noteq> 0 \<and> get_channel env cid \<noteq> None \<and>
              (\<forall>s. send_outcomes s w' = send_outcomes s w))
       \<or> (\<exists>r. cid \<noteq> 0 \<and> get_channel env cid \<noteq> None \<and>
              send_outcomes sl w' = send_outcomes sl w @ [r] \<and>
              (\<forall>s. s \<noteq> sl \<longrightarrow> send_outcomes s w' = send_outcomes s w) \<and>
              x = (case r of SendRaised e \<Rightarrow> Some e | _ \<Rightarrow> None))"
proof (cases "cid = 0 \<or> get_channel env cid = None")
  case True
  with assms show ?thesis by (auto simp: post_update_def split: if_splits option.splits)
next
  case False
  then obtain ch where ch: "cid \<noteq> 0" "get_channel env cid = Some ch" by auto
  obtain details w1 where d: "get_creature_details env name w = (details, w1)" by fastforce
  from get_creature_details_events [of env name w] d
  obtain evs urls where evs: "w1 = w @ evs" "fetch_only urls evs" by auto
  have same: "send_outcomes s w1 = send_outcomes s w" for s
    using evs fetch_only_no_send [of urls evs s] by simp
  show ?thesis
  proof (cases "mk name details data")
    case (Inl e)
    with assms ch d same show ?thesis by (auto simp: post_update_def)
  next
    case (Inr em)
    with assms ch d same show ?thesis
      by (auto simp: post_update_def Let_def split: send_outcome.splits)
  qed
qed


lemma creature_block_cases:
  assumes "creature_block env force data (result, self, w) = X"
  shows "(\<not> (truthy (boosted_creature data) \<and>
              (force \<or> boosted_creature data \<noteq> last_posted_creature self)) \<and>
          X = Inr (result, self, w))
       \<or> (truthy (boosted_creature data) \<and>
            (force \<or> boosted_creature data \<noteq> last_posted_creature self) \<and>
          (\<exists>w'. X = Inr (result\<lparr>creature_posted := True\<rparr>,
                          self\<lparr>last_posted_creature := boosted_creature data\<rparr>, w') \<and>
             send_outcomes Boss w' = send_outcomes Boss w \<and>
             (if creature_channel_id self \<noteq> 0 \<and>
                 get_channel env (creature_channel_id self) \<noteq> None
              then \<exists>r. send_outcomes Creature w' = send_outcomes Creature w @ [r] \<and>
                       (\<forall>e. r \<noteq> SendRaised e)
              else w' = w)))
       \<or> (truthy (boosted_creature data) \<and>
            (force \<or> boosted_creature data \<noteq> last_posted_creature self) \<and>
          creature_channel_id self \<noteq> 0 \<and> get_channel env (creature_channel_id self) \<noteq> None \<and>
          (\<exists>e w'. X = Inl (e, result, self, w') \<and>
             send_outcomes Boss w' = send_outcomes Boss w \<and>
             (send_outcomes Creature w' = send_outcomes Creature w \<or>
              send_outcomes Creature w' = send_outcomes Creature w @ [SendRaised e])))"
proof (cases "truthy (boosted_creature data) \<and>
              (force \<or> boosted_creature data \<noteq> last_posted_creature self)")
  case False
  with assms show ?thesis by (auto simp: creature_block_def)
next
  case True
  obtain x w' where p: "post_update env Creature (creature_channel_id self)
      (create_creature_embed env) (boosted_creature data) data w = (x, w')" by fastforce
  have X: "X = (case x of Some e \<Rightarrow> Inl (e, result, self, w')
                | None \<Rightarrow> Inr (result\<lparr>creature_posted := True\<rparr>,
                     self\<lparr>last_posted_creature := boosted_creature data\<rparr>, w'))"
    using assms True p by (auto simp: creature_block_def post_creature_update_def split: option.splits)
  from post_update_cases [OF p]
  consider (skip) "x = None" "w' = w"
      "creature_channel_id self = 0 \<or> get_channel env (creature_channel_id self) = None"
    | (build) e where "x = Some e" "creature_channel_id self \<noteq> 0"
      "get_channel env (creature_channel_id self) \<noteq> None"
      "\<forall>s. send_outcomes s w' = send_outcomes s w"
    | (sent) r where "creature_channel_id self \<noteq> 0"
      "get_channel env (creature_channel_id self) \<noteq> None"
      "send_outcomes Creature w' = send_outcomes Creature w @ [r]"
      "\<forall>s. s \<noteq> Creature \<longrightarrow> send_outcomes s w' = send_outcomes s w"
      "x = (case r of SendRaised e \<Rightarrow> Some e | _ \<Rightarrow> None)"
    by (elim disjE exE conjE) auto
  then show ?thesis
  proof cases
    case skip
    with X True show ?thesis by auto
  next
    case build
    with X True show ?thesis by auto
  next
    case sent
    show ?thesis
    proof (cases r)
      case (SendRaised e)
      with sent X True show ?thesis by auto
    qed (use sent X True in auto)
  qed
qed

lemma boss_block_cases:
  assumes "boss_block env force data (result, self, w) = X"
  shows "(\<not> (truthy (boosted_boss data) \<and>
              (force \<or> boosted_boss data \<noteq> last_posted_boss self)) \<and>
          X = Inr (result, self, w))
       \<or> (truthy (boosted_boss data) \<and>
            (force \<or> boosted_boss data \<noteq> last_posted_boss self) \<and>
          (\<exists>w'. X = Inr (result\<lparr>boss_posted := True\<rparr>,
                          self\<lparr>last_posted_boss := boosted_boss data\<rparr>, w') \<and>
             send_outcomes Creature w' = send_outcomes Creature w \<and>
             (if boss_channel_id self \<noteq> 0 \<and>
                 get_channel env (boss_channel_id self) \<noteq> None
              then \<exists>r. send_outcomes Boss w' = send_outcomes Boss w @ [r] \<and>
                       (\<forall>e. r \<noteq> SendRaised e)
              else w' = w)))
       \<or> (truthy (boosted_boss data) \<and>
            (force \<or> boosted_boss data \<noteq> last_posted_boss self) \<and>
          boss_channel_id self \<noteq> 0 \<and> get_channel env (boss_channel_id self) \<noteq> None \<and>
          (\<exists>e w'. X = Inl (e, result, self, w') \<and>
             send_outcomes Creature w' = send_outcomes Creature w \<and>
             (send_outcomes Boss w' = send_outcomes Boss w \<or>
              send_outcomes Boss w' = send_outcomes Boss w @ [SendRaised e])))"
proof (cases "truthy (boosted_boss data) \<and>
              (force \<or> boosted_boss data \<noteq> last_posted_boss self)")
  case False
  with assms show ?thesis by (auto simp: boss_block_def)
next
  case True
  obtain x w' where p: "post_update env Boss (boss_channel_id self)
      (create_boss_embed env) (boosted_boss data) data w = (x, w')" by fastforce
  have X: "X = (case x of Some e \<Rightarrow> Inl (e, result, self, w')
                | None \<Rightarrow> Inr (result\<lparr>boss_posted := True\<rparr>,
                     self\<lparr>last_posted_boss := boosted_boss data\<rparr>, w'))"
    using assms True p by (auto simp: boss_block_def post_boss_update_def split: option.splits)
  from post_update_cases [OF p]
  consider (skip) "x = None" "w' = w"
      "boss_channel_id self = 0 \<or> get_channel env (boss_channel_id self) = None"
    | (build) e where "x = Some e" "boss_channel_id self \<noteq> 0"
      "get_channel env (boss_channel_id self) \<noteq> None"
      "\<forall>s. send_outcomes s w' = send_outcomes s w"
    | (sent) r where "boss_channel_id self \<noteq> 0"
      "get_channel env (boss_channel_id self) \<noteq> None"
      "send_outcomes Boss w' = send_outcomes Boss w @ [r]"
      "\<forall>s. s \<noteq> Boss \<longrightarrow> send_outcomes s w' = send_outcomes s w"
      "x = (case r of SendRaised e \<Rightarrow> Some e | _ \<Rightarrow> None)"
    by (elim disjE exE conjE) auto
  then show ?thesis
  proof cases
    case skip
    with X True show ?thesis by auto
  next
    case build
    with X True show ?thesis by auto
  next
    case sent
    show ?thesis
    proof (cases r)
      case (SendRaised e)
      with sent X True show ?thesis by auto
    qed (use sent X True in auto)
  qed
qed


lemma creature_block_elim [consumes 1, case_names skip ok raise]:
  assumes "creature_block env force data (result, self, w) = X"
  obtains
    (skip) "\<not> (truthy (boosted_creature data) \<and>
              (force \<or> boosted_creature data \<noteq> last_posted_creature self))"
      "X = Inr (result, self, w)"
  | (ok) w' where "truthy (boosted_creature data)"
      "force \<or> boosted_creature data \<noteq> last_posted_creature self"
      "X = Inr (result\<lparr>creature_posted := True\<rparr>,
                self\<lparr>last_posted_creature := boosted_creature data\<rparr>, w')"
      "send_outcomes Boss w' = send_outcomes Boss w"
      "if creature_channel_id self \<noteq> 0 \<and> get_channel env (creature_channel_id self) \<noteq> None
       then \<exists>x. send_outcomes Creature w' = send_outcomes Creature w @ [x] \<and>
                (\<forall>e. x \<noteq> SendRaised e)
       else w' = w"
  | (raise) e w' where "truthy (boosted_creature data)"
      "force \<or> boosted_creature data \<noteq> last_posted_creature self"
      "creature_channel_id self \<noteq> 0" "get_channel env (creature_channel_id self) \<noteq> None"
      "X = Inl (e, result, self, w')"
      "send_outcomes Boss w' = send_outcomes Boss w"
      "send_outcomes Creature w' = send_outcomes Creature w \<or>
       send_outcomes Creature w' = send_outcomes Creature w @ [SendRaised e]"
  using creature_block_cases [OF assms] by (elim disjE exE conjE) auto

lemma boss_block_elim [consumes 1, case_names skip ok raise]:
  assumes "boss_block env force data (result, self, w) = X"
  obtains
    (skip) "\<not> (truthy (boosted_boss data) \<and>
              (force \<or> boosted_boss data \<noteq> last_posted_boss self))"
      "X = Inr (result, self, w)"
  | (ok) w' where "truthy (boosted_boss data)"
      "force \<or> boosted_boss data \<noteq> last_posted_boss self"
      "X = Inr (result\<lparr>boss_posted := True\<rparr>,
                self\<lparr>last_posted_boss := boosted_boss data\<rparr>, w')"
      "send_outcomes Creature w' = send_outcomes Creature w"
      "if boss_channel_id self \<noteq> 0 \<and> get_channel env (boss_channel_id self) \<noteq> None
       then \<exists>x. send_outcomes Boss w' = send_outcomes Boss w @ [x] \<and>
                (\<forall>e. x \<noteq> SendRaised e)
       else w' = w"
  | (raise) e w' where "truthy (boosted_boss data)"
      "force \<or> boosted_boss data \<noteq> last_posted_boss self"
      "boss_channel_id self \<noteq> 0" "get_channel env (boss_channel_id self) \<noteq> None"
      "X = Inl (e, result, self, w')"
      "send_outcomes Creature w' = send_outcomes Creature w"
      "send_outcomes Boss w' = send_outcomes Boss w \<or>
       send_outcomes Boss w' = send_outcomes Boss w @ [SendRaised e]"
  using boss_block_cases [OF assms] by (elim disjE exE conjE) auto

lemma run_cases [consumes 1, case_names no_summary creature_raised boss_raised completed]:
  assumes run: "post_boosted_updates env force self w = (r, self', w')"
  obtains
    (no_summary) "fst (get_boosted_creatures env w) = None"
      "r = \<lparr>creature_posted = False, boss_posted = False,
            errors = [''Failed to fetch boosted data'']\<rparr>"
      "self' = self" "w' = snd (get_boosted_creatures env w)"
  | (creature_raised) data e where "fst (get_boosted_creatures env w) = Some data"
      "truthy (boosted_creature data)"
      "force \<or> boosted_creature data \<noteq> last_posted_creature self"
      "creature_channel_id self \<noteq> 0" "get_channel env (creature_channel_id self) \<noteq> None"
      "r = \<lparr>creature_posted = False, boss_posted = False, errors = [error_msg e]\<rparr>"
      "self' = self"
      "send_outcomes Boss w' = send_outcomes Boss w"
      "send_outcomes Creature w' = send_outcomes Creature w \<or>
       send_outcomes Creature w' = send_outcomes Creature w @ [SendRaised e]"
  | (boss_raised) data e where "fst (get_boosted_creatures env w) = Some data"
      "truthy (boosted_boss data)"
      "force \<or> boosted_boss data \<noteq> last_posted_boss self"
      "boss_channel_id self \<noteq> 0" "get_channel env (boss_channel_id self) \<noteq> None"
      "r = \<lparr>creature_posted = (truthy (boosted_creature data) \<and>
                (force \<or> boosted_creature data \<noteq> last_posted_creature self)),
            boss_posted = False, errors = [error_msg e]\<rparr>"
      "self' = self\<lparr>last_posted_creature :=
          (if truthy (boosted_creature data) \<and>
              (force \<or> boosted_creature data \<noteq> last_posted_creature self)
           then boosted_creature data else last_posted_creature self)\<rparr>"
      "if truthy (boosted_creature data) \<and>
          (force \<or> boosted_creature data \<noteq> last_posted_creature self) \<and>
          creature_channel_id self \<noteq> 0 \<and> get_channel env (creature_channel_id self) \<noteq> None
       then \<exists>x. send_outcomes Creature w' = send_outcomes Creature w @ [x] \<and>
                (\<forall>e. x \<noteq> SendRaised e)
       else send_outcomes Creature w' = send_outcomes Creature w"
      "send_outcomes Boss w' = send_outcomes Boss w \<or>
       send_outcomes Boss w' = send_outcomes Boss w @ [SendRaised e]"
  | (completed) data where "fst (get_boosted_creatures env w) = Some data"
      "r = \<lparr>creature_posted = (truthy (boosted_creature data) \<and>
                (force \<or> boosted_creature data \<noteq> last_posted_creature self)),
            boss_posted = (truthy (boosted_boss data) \<and>
                (force \<or> boosted_boss data \<noteq> last_posted_boss self)),
            errors = []\<rparr>"
      "self' = self\<lparr>last_posted_creature :=
          (if truthy (boosted_creature data) \<and>
              (force \<or> boosted_creature data \<noteq> last_posted_creature self)
           then boosted_creature data else last_posted_creature self),
        last_posted_boss :=
          (if truthy (boosted_boss data) \<and>
              (force \<or> boosted_boss data \<noteq> last_posted_boss self)
           then boosted_boss data else last_posted_boss self)\<rparr>"
      "if truthy (boosted_creature data) \<and>
          (force \<or> boosted_creature data \<noteq> last_posted_creature self) \<and>
          creature_channel_id self \<noteq> 0 \<and> get_channel env (creature_channel_id self) \<noteq> None
       then \<exists>x. send_outcomes Creature w' = send_outcomes Creature w @ [x] \<and>
                (\<forall>e. x \<noteq> SendRaised e)
       else send_outcomes Creature w' = send_outcomes Creature w"
      "if truthy (boosted_boss data) \<and>
          (force \<or> boosted_boss data \<noteq> last_posted_boss self) \<and>
          boss_channel_id self \<noteq> 0 \<and> get_channel env (boss_channel_id self) \<noteq> None
       then \<exists>x. send_outcomes Boss w' = send_outcomes Boss w @ [x] \<and>
                (\<forall>e. x \<noteq> SendRaised e)
       else send_outcomes Boss w' = send_outcomes Boss w"
proof -
  obtain sd w1 where g: "get_boosted_creatures env w = (sd, w1)" by fastforce
  from get_boosted_creatures_events [of env w] g
  obtain evs urls where "w1 = w @ evs" "fetch_only urls evs" by auto
  hence same: "send_outcomes s w1 = send_outcomes s w" for s
    using fetch_only_no_send [of urls evs s] by simp
  show thesis
  proof (cases sd)
    case None
    with run g show thesis
      by (intro no_summary) (auto simp: post_boosted_updates_def empty_result_def)
  next
    case (Some data)
    obtain X where X: "creature_block env force data (empty_result, self, w1) = X" by simp
    have top: "(r, self', w') =
      (case X of Inl x \<Rightarrow> on_exception x
       | Inr rsw \<Rightarrow> (case boss_block env force data rsw of
            Inl x \<Rightarrow> on_exception x | Inr rsw' \<Rightarrow> rsw'))"
      using run g Some X by (simp add: post_boosted_updates_def)
    from X show thesis
    proof (cases rule: creature_block_elim)
      case (raise e w2)
      with top g Some same show thesis
        by (intro creature_raised [of data e]) (auto simp: on_exception_def empty_result_def)
    next
      case skip
      note c = skip
      obtain Y where Y: "boss_block env force data (empty_result, self, w1) = Y" by simp
      have top2: "(r, self', w') = (case Y of Inl x \<Rightarrow> on_exception x | Inr rsw' \<Rightarrow> rsw')"
        using top c Y by simp
      from Y show thesis
      proof (cases rule: boss_block_elim)
        case skip
        with top2 c g Some same show thesis
          by (intro completed [of data]) (auto simp: empty_result_def)
      next
        case (ok w3)
        with top2 c g Some same show thesis
          by (intro completed [of data]) (auto simp: empty_result_def split: if_splits)
      next
        case (raise e w3)
        with top2 c g Some same show thesis
          by (intro boss_raised [of data e]) (auto simp: on_exception_def empty_result_def)
      qed
    next
      case (ok w2)
      note c = ok
      obtain Y where Y: "boss_block env force data (empty_result\<lparr>creature_posted := True\<rparr>,
          self\<lparr>last_posted_creature := boosted_creature data\<rparr>, w2) = Y" by simp
      have top2: "(r, self', w') = (case Y of Inl x \<Rightarrow> on_exception x | Inr rsw' \<Rightarrow> rsw')"
        using top c Y by simp
      from Y show thesis
      proof (cases rule: boss_block_elim)
        case skip
        with top2 c g Some same show thesis
          by (intro completed [of data]) (auto simp: empty_result_def split: if_splits)
      next
        case (ok w3)
        with top2 c g Some same show thesis
          by (intro completed [of data]) (auto simp: empty_result_def split: if_splits)
      next
        case (raise e w3)
        with top2 c g Some same show thesis
          by (intro boss_raised [of data e])
             (auto simp: on_exception_def empty_result_def split: if_splits)
      qed
    qed
  qed
qed

subsection \<open>The scenarios, evaluated\<close>

lemmas model_defs =
  post_boosted_updates_def creature_block_def boss_block_def on_exception_def
  post_creature_update_def post_boss_update_def post_update_def error_msg_def empty_result_def
  get_boosted_creatures_def get_creature_details_def read_boosted_creature_def
  read_boosted_boss_def read_timestamp_def make_request_def make_request_loop.simps
  request_url_def BASE_URL_def formatted_name_def ascii_lower_def ascii_lower_char_def replace_spaces_def
  num_gets_def num_sends_def init_bot_def Let_def fmlookup_of_list fmdom_of_list

lemmas scenario_defs =
  bot_env_def send_ok_def tibia_api_def wolf_world_def boss_listing_def some_details_def
  send_forbidden_once_def send_reset_once_def failing_api_def rate_limited_api_def
  world_without_creature_def bosses_only_api_def nameless_boss_listing_def
  nameless_boss_api_def world_down_api_def wolf_world_at_def ticking_api_def

lemma summary_of_tibia_api:
  "get_boosted_creatures (bot_env tibia_api send) [] =
    (Some \<lparr>boosted_creature = JStr ''Wolf'', boosted_boss = JStr ''Ferumbras'',
       timestamp = JStr ''2024-05-01T08:00:00Z''\<rparr>,
     [HttpGet ''https://api.tibiadata.com/v4/world/Antica'',
      HttpGet ''https://api.tibiadata.com/v4/boostablebosses''])"
  by (simp add: model_defs scenario_defs)

lemma summary_of_failing_api:
  "get_boosted_creatures (bot_env failing_api send) [] =
    (None,
     [HttpGet ''https://api.tibiadata.com/v4/world/Antica'', Sleep 1,
      HttpGet ''https://api.tibiadata.com/v4/world/Antica'', Sleep 2,
      HttpGet ''https://api.tibiadata.com/v4/world/Antica'', Sleep 4,
      HttpGet ''https://api.tibiadata.com/v4/world/Antica'',
      HttpGet ''https://api.tibiadata.com/v4/boostablebosses'', Sleep 1,
      HttpGet ''https://api.tibiadata.com/v4/boostablebosses'', Sleep 2,
      HttpGet ''https://api.tibiadata.com/v4/boostablebosses'', Sleep 4,
      HttpGet ''https://api.tibiadata.com/v4/boostablebosses''])"
  by (simp add: model_defs scenario_defs)

lemma forbidden_run:
  "post_boosted_updates (bot_env tibia_api send_forbidden_once) False (init_bot 1 2) [] =
   (\<lparr>creature_posted = True, boss_posted = True, errors = []\<rparr>,
    \<lparr>creature_channel_id = 1, boss_channel_id = 2,
       last_posted_creature = JStr ''Wolf'', last_posted_boss = JStr ''Ferumbras''\<rparr>,
    [HttpGet ''https://api.tibiadata.com/v4/world/Antica'',
     HttpGet ''https://api.tibiadata.com/v4/boostablebosses'',
     HttpGet ''https://api.tibiadata.com/v4/creature/wolf'',
     ChannelSend Creature (Channel 1) (JStr ''Wolf'') Forbidden,
     HttpGet ''https://api.tibiadata.com/v4/creature/ferumbras'',
     ChannelSend Boss (Channel 2) (JStr ''Ferumbras'') SendOk])"
  by (simp add: model_defs scenario_defs)

lemma unconfigured_run:
  "post_boosted_updates (bot_env tibia_api send_ok) False (init_bot 0 0) [] =
   (\<lparr>creature_posted = True, boss_posted = True, errors = []\<rparr>,
    \<lparr>creature_channel_id = 0, boss_channel_id = 0,
       last_posted_creature = JStr ''Wolf'', last_posted_boss = JStr ''Ferumbras''\<rparr>,
    [HttpGet ''https://api.tibiadata.com/v4/world/Antica'',
     HttpGet ''https://api.tibiadata.com/v4/boostablebosses''])"
  by (simp add: model_defs scenario_defs)

subsection \<open>The update controller\<close>

text \<open>
  Claim C8. When \<^verbatim>\<open>get_boosted_creatures\<close> returns \<^verbatim>\<open>None\<close>, \<^verbatim>\<open>post_boosted_updates\<close>
  returns both flags false and exactly one error message, leaves the bot's attributes as they
  were, and does nothing after the fetch of the summary: the trace is the one the fetch
  left, which holds no send and only GETs of the world and bosses endpoints (no details
  request).
\<close>

theorem no_summary_no_work:
  assumes "fst (get_boosted_creatures env w) = None"
  shows "post_boosted_updates env force self w =
      (\<lparr>creature_posted = False, boss_posted = False,
         errors = [''Failed to fetch boosted data'']\<rparr>,
       self, snd (get_boosted_creatures env w)) \<and>
    send_outcomes Creature (snd (get_boosted_creatures env w)) = send_outcomes Creature w \<and>
    send_outcomes Boss (snd (get_boosted_creatures env w)) = send_outcomes Boss w \<and>
    snd (get_boosted_creatures env w) = w @ new_events w (snd (get_boosted_creatures env w)) \<and>
    fetch_only [request_url ''world/Antica'', request_url ''boostablebosses'']
      (new_events w (snd (get_boosted_creatures env w)))"
proof -
  obtain w1 where g: "get_boosted_creatures env w = (None, w1)"
    using assms by (cases "get_boosted_creatures env w") auto
  from get_boosted_creatures_events [of env w] g
  obtain evs where evs: "w1 = w @ evs"
    "fetch_only [request_url ''world/Antica'', request_url ''boostablebosses''] evs" by auto
  have "send_outcomes sl w1 = send_outcomes sl w" for sl
    using evs fetch_only_no_send [of _ evs sl] by simp
  with g evs show ?thesis
    by (simp add: post_boosted_updates_def empty_result_def new_events_def)
qed

theorem no_summary_no_work_witness:
  "post_boosted_updates (bot_env failing_api send_ok) False (init_bot 1 2) [] =
      (\<lparr>creature_posted = False, boss_posted = False,
         errors = [''Failed to fetch boosted data'']\<rparr>,
       init_bot 1 2, snd (get_boosted_creatures (bot_env failing_api send_ok) [])) \<and>
   send_outcomes Creature (snd (get_boosted_creatures (bot_env failing_api send_ok) [])) = [] \<and>
   send_outcomes Boss (snd (get_boosted_creatures (bot_env failing_api send_ok) [])) = [] \<and>
   num_gets (snd (get_boosted_creatures (bot_env failing_api send_ok) [])) = 8"
proof -
  have "fst (get_boosted_creatures (bot_env failing_api send_ok) []) = None"
    by (simp add: summary_of_failing_api)
  from no_summary_no_work [OF this, of False "init_bot 1 2"] show ?thesis
    by (simp add: summary_of_failing_api num_gets_def)
qed

text \<open>
  Claim C10. After every call, a true \<^verbatim>\<open>creature_posted\<close> means that
  \<^verbatim>\<open>last_posted_creature\<close> is the creature of the summary fetched in this call, and a true
  \<^verbatim>\<open>boss_posted\<close> that \<^verbatim>\<open>last_posted_boss\<close> is its boss, whatever the channels and the
  sends did (the example below has a refused send and unconfigured channels).
\<close>

theorem posted_flag_means_state:
  assumes "post_boosted_updates env force self w = (r, self', w')"
  shows "(creature_posted r \<longrightarrow>
            map_option boosted_creature (fst (get_boosted_creatures env w))
              = Some (last_posted_creature self')) \<and>
         (boss_posted r \<longrightarrow>
            map_option boosted_boss (fst (get_boosted_creatures env w))
              = Some (last_posted_boss self'))"
  using assms by (cases rule: run_cases) auto

theorem posted_flag_means_state_witness:
  "creature_posted (fst (post_boosted_updates (bot_env tibia_api send_forbidden_once) False
      (init_bot 1 2) [])) \<and>
   last_posted_creature (fst (snd (post_boosted_updates (bot_env tibia_api send_forbidden_once)
      False (init_bot 1 2) []))) = JStr ''Wolf'' \<and>
   boss_posted (fst (post_boosted_updates (bot_env tibia_api send_ok) False (init_bot 0 0) [])) \<and>
   last_posted_boss (fst (snd (post_boosted_updates (bot_env tibia_api send_ok) False
      (init_bot 0 0) []))) = JStr ''Ferumbras''"
  using posted_flag_means_state [OF forbidden_run] posted_flag_means_state [OF unconfigured_run]
  by (simp add: forbidden_run unconfigured_run summary_of_tibia_api)

subsection \<open>More scenarios, evaluated\<close>

lemma summary_anywhere:
  "get_boosted_creatures (bot_env tibia_api send) w =
    (Some \<lparr>boosted_creature = JStr ''Wolf'', boosted_boss = JStr ''Ferumbras'',
       timestamp = JStr ''2024-05-01T08:00:00Z''\<rparr>,
     w @ [HttpGet ''https://api.tibiadata.com/v4/world/Antica'',
          HttpGet ''https://api.tibiadata.com/v4/boostablebosses''])"
  by (simp add: model_defs scenario_defs)

lemma reset_run:
  "post_boosted_updates (bot_env tibia_api send_reset_once) False (init_bot 1 2) [] =
   (\<lparr>creature_posted = False, boss_posted = False,
       errors = [''Error posting boosted updates: Connection reset by peer'']\<rparr>,
    \<lparr>creature_channel_id = 1, boss_channel_id = 2,
       last_posted_creature = JNull, last_posted_boss = JNull\<rparr>,
    [HttpGet ''https://api.tibiadata.com/v4/world/Antica'',
     HttpGet ''https://api.tibiadata.com/v4/boostablebosses'',
     HttpGet ''https://api.tibiadata.com/v4/creature/wolf'',
     ChannelSend Creature (Channel 1) (JStr ''Wolf'')
       (SendRaised (Exception ''Connection reset by peer''))])"
  by (simp add: model_defs scenario_defs)

lemma reset_second_run:
  "post_boosted_updates (bot_env tibia_api send_reset_once) False
     \<lparr>creature_channel_id = 1, boss_channel_id = 2,
       last_posted_creature = JNull, last_posted_boss = JNull\<rparr>
     [HttpGet ''https://api.tibiadata.com/v4/world/Antica'',
      HttpGet ''https://api.tibiadata.com/v4/boostablebosses'',
      HttpGet ''https://api.tibiadata.com/v4/creature/wolf'',
      ChannelSend Creature (Channel 1) (JStr ''Wolf'')
        (SendRaised (Exception ''Connection reset by peer''))] =
   (\<lparr>creature_posted = True, boss_posted = True, errors = []\<rparr>,
    \<lparr>creature_channel_id = 1, boss_channel_id = 2,
       last_posted_creature = JStr ''Wolf'', last_posted_boss = JStr ''Ferumbras''\<rparr>,
    [HttpGet ''https://api.tibiadata.com/v4/world/Antica'',
     HttpGet ''https://api.tibiadata.com/v4/boostablebosses'',
     HttpGet ''https://api.tibiadata.com/v4/creature/wolf'',
     ChannelSend Creature (Channel 1) (JStr ''Wolf'')
       (SendRaised (Exception ''Connection reset by peer'')),
     HttpGet ''https://api.tibiadata.com/v4/world/Antica'',
     HttpGet ''https://api.tibiadata.com/v4/boostablebosses'',
     HttpGet ''https://api.tibiadata.com/v4/creature/wolf'',
     ChannelSend Creature (Channel 1) (JStr ''Wolf'') SendOk,
     HttpGet ''https://api.tibiadata.com/v4/creature/ferumbras'',
     ChannelSend Boss (Channel 2) (JStr ''Ferumbras'') SendOk])"
  by (simp add: model_defs scenario_defs)

lemma forbidden_second_run:
  "post_boosted_updates (bot_env tibia_api send_forbidden_once) False
     \<lparr>creature_channel_id = 1, boss_channel_id = 2,
       last_posted_creature = JStr ''Wolf'', last_posted_boss = JStr ''Ferumbras''\<rparr>
     [HttpGet ''https://api.tibiadata.com/v4/world/Antica'',
      HttpGet ''https://api.tibiadata.com/v4/boostablebosses'',
      HttpGet ''https://api.tibiadata.com/v4/creature/wolf'',
      ChannelSend Creature (Channel 1) (JStr ''Wolf'') Forbidden,
      HttpGet ''https://api.tibiadata.com/v4/creature/ferumbras'',
      ChannelSend Boss (Channel 2) (JStr ''Ferumbras'') SendOk] =
   (\<lparr>creature_posted = False, boss_posted = False, errors = []\<rparr>,
    \<lparr>creature_channel_id = 1, boss_channel_id = 2,
       last_posted_creature = JStr ''Wolf'', last_posted_boss = JStr ''Ferumbras''\<rparr>,
    [HttpGet ''https://api.tibiadata.com/v4/world/Antica'',
     HttpGet ''https://api.tibiadata.com/v4/boostablebosses'',
     HttpGet ''https://api.tibiadata.com/v4/creature/wolf'',
     ChannelSend Creature (Channel 1) (JStr ''Wolf'') Forbidden,
     HttpGet ''https://api.tibiadata.com/v4/creature/ferumbras'',
     ChannelSend Boss (Channel 2) (JStr ''Ferumbras'') SendOk,
     HttpGet ''https://api.tibiadata.com/v4/world/Antica'',
     HttpGet ''https://api.tibiadata.com/v4/boostablebosses''])"
  by (simp add: model_defs scenario_defs)

lemma summary_without_creature:
  "get_boosted_creatures (bot_env bosses_only_api send) w =
    (Some \<lparr>boosted_creature = JNull, boosted_boss = JStr ''Ferumbras'', timestamp = JNull\<rparr>,
     w @ [HttpGet ''https://api.tibiadata.com/v4/world/Antica'',
          HttpGet ''https://api.tibiadata.com/v4/boostablebosses''])"
  by (simp add: model_defs scenario_defs)

lemma forced_run_without_creature:
  "post_boosted_updates (bot_env bosses_only_api send_ok) True (init_bot 1 2) [] =
   (\<lparr>creature_posted = False, boss_posted = True, errors = []\<rparr>,
    \<lparr>creature_channel_id = 1, boss_channel_id = 2,
       last_posted_creature = JNull, last_posted_boss = JStr ''Ferumbras''\<rparr>,
    [HttpGet ''https://api.tibiadata.com/v4/world/Antica'',
     HttpGet ''https://api.tibiadata.com/v4/boostablebosses'',
     HttpGet ''https://api.tibiadata.com/v4/creature/ferumbras'',
     ChannelSend Boss (Channel 2) (JStr ''Ferumbras'') SendOk])"
  by (simp add: model_defs scenario_defs)

lemma init_bot_fields:
  "creature_channel_id (init_bot a b) = a" "boss_channel_id (init_bot a b) = b"
  "last_posted_creature (init_bot a b) = JNull" "last_posted_boss (init_bot a b) = JNull"
  by (simp_all add: init_bot_def)

lemma successful_sends_snoc:
  "send_outcomes sl w' = send_outcomes sl w @ [x] \<Longrightarrow>
   successful_sends sl w' = successful_sends sl w + (if x = SendOk then 1 else 0)"
  "send_outcomes sl w' = send_outcomes sl w \<Longrightarrow> successful_sends sl w' = successful_sends sl w"
  by (simp_all add: successful_sends_def)


lemma run_sends:
  assumes "post_boosted_updates env force self w = (r, self', w')"
  shows "successful_sends Creature w' = successful_sends Creature w \<or>
         (successful_sends Creature w' = successful_sends Creature w + 1 \<and> creature_posted r)"
    and "successful_sends Boss w' = successful_sends Boss w \<or>
         (successful_sends Boss w' = successful_sends Boss w + 1 \<and> boss_posted r)"
proof -
  have "(successful_sends Creature w' = successful_sends Creature w \<or>
         (successful_sends Creature w' = successful_sends Creature w + 1 \<and> creature_posted r)) \<and>
        (successful_sends Boss w' = successful_sends Boss w \<or>
         (successful_sends Boss w' = successful_sends Boss w + 1 \<and> boss_posted r))"
    using assms
  proof (cases rule: run_cases)
    case no_summary
    from get_boosted_creatures_events [of env w] obtain evs urls where
      "snd (get_boosted_creatures env w) = w @ evs" "fetch_only urls evs" by blast
    hence "send_outcomes s w' = send_outcomes s w" for s
      using no_summary(4) fetch_only_no_send [of urls evs s] by simp
    then show ?thesis by (simp add: successful_sends_def)
  next
    case (creature_raised data e)
    then show ?thesis by (auto simp: successful_sends_def)
  next
    case (boss_raised data e)
    then show ?thesis by (auto simp: successful_sends_def split: if_splits)
  next
    case (completed data)
    then show ?thesis by (auto simp: successful_sends_def split: if_splits)
  qed
  then show "successful_sends Creature w' = successful_sends Creature w \<or>
         (successful_sends Creature w' = successful_sends Creature w + 1 \<and> creature_posted r)"
    and "successful_sends Boss w' = successful_sends Boss w \<or>
         (successful_sends Boss w' = successful_sends Boss w + 1 \<and> boss_posted r)"
    by simp_all
qed

subsection \<open>The decision to post\<close>

text \<open>
  Claim C2, as the code has it. With a summary, a slot is posted only if its observed value
  is truthy and (force is set or the value differs from the stored one); in a call that
  records no error the flag of each slot is exactly this condition, and a send for the slot
  is made exactly when the condition holds and the slot's channel is configured and found.
  An absent stored value differs from every truthy value, and an absent observed value never
  posts, forced or not. With force set, every slot with a truthy observed value is posted
  whatever was stored.
\<close>

theorem posting_decision:
  assumes "post_boosted_updates env force self w = (r, self', w')"
    and "fst (get_boosted_creatures env w) = Some data"
  shows
   "(creature_posted r \<longrightarrow>
       truthy (boosted_creature data) \<and>
       (force \<or> boosted_creature data \<noteq> last_posted_creature self)) \<and>
    (boss_posted r \<longrightarrow>
       truthy (boosted_boss data) \<and> (force \<or> boosted_boss data \<noteq> last_posted_boss self)) \<and>
    (errors r = [] \<longrightarrow>
       creature_posted r =
         (truthy (boosted_creature data) \<and>
          (force \<or> boosted_creature data \<noteq> last_posted_creature self)) \<and>
       boss_posted r =
         (truthy (boosted_boss data) \<and> (force \<or> boosted_boss data \<noteq> last_posted_boss self)) \<and>
       (send_outcomes Creature w' \<noteq> send_outcomes Creature w) =
         (truthy (boosted_creature data) \<and>
          (force \<or> boosted_creature data \<noteq> last_posted_creature self) \<and>
          creature_channel_id self \<noteq> 0 \<and> get_channel env (creature_channel_id self) \<noteq> None) \<and>
       (send_outcomes Boss w' \<noteq> send_outcomes Boss w) =
         (truthy (boosted_boss data) \<and> (force \<or> boosted_boss data \<noteq> last_posted_boss self) \<and>
          boss_channel_id self \<noteq> 0 \<and> get_channel env (boss_channel_id self) \<noteq> None))"
  using assms
proof (cases rule: run_cases)
  case no_summary
  with assms(2) show ?thesis by simp
next
  case (creature_raised d e)
  with assms(2) show ?thesis by auto
next
  case (boss_raised d e)
  with assms(2) show ?thesis by (auto split: if_splits)
next
  case (completed d)
  with assms(2) show ?thesis by (auto split: if_splits)
qed

theorem posting_decision_witness:
  "creature_posted (fst (post_boosted_updates (bot_env bosses_only_api send_ok) True
      (init_bot 1 2) [])) = False \<and>
   boss_posted (fst (post_boosted_updates (bot_env bosses_only_api send_ok) True
      (init_bot 1 2) [])) = True \<and>
   send_outcomes Boss (snd (snd (post_boosted_updates (bot_env bosses_only_api send_ok) True
      (init_bot 1 2) []))) \<noteq> [] \<and>
   send_outcomes Creature (snd (snd (post_boosted_updates (bot_env bosses_only_api send_ok) True
      (init_bot 1 2) []))) = [] \<and>
   creature_posted (fst (post_boosted_updates (bot_env tibia_api send_forbidden_once) False
      \<lparr>creature_channel_id = 1, boss_channel_id = 2,
        last_posted_creature = JStr ''Wolf'', last_posted_boss = JStr ''Ferumbras''\<rparr>
      [HttpGet ''https://api.tibiadata.com/v4/world/Antica'',
       HttpGet ''https://api.tibiadata.com/v4/boostablebosses'',
       HttpGet ''https://api.tibiadata.com/v4/creature/wolf'',
       ChannelSend Creature (Channel 1) (JStr ''Wolf'') Forbidden,
       HttpGet ''https://api.tibiadata.com/v4/creature/ferumbras'',
       ChannelSend Boss (Channel 2) (JStr ''Ferumbras'') SendOk])) = False"
proof -
  have a: "fst (get_boosted_creatures (bot_env bosses_only_api send_ok) []) =
      Some \<lparr>boosted_creature = JNull, boosted_boss = JStr ''Ferumbras'', timestamp = JNull\<rparr>"
    by (simp add: summary_without_creature)
  have b: "fst (get_boosted_creatures (bot_env tibia_api send_forbidden_once)
      [HttpGet ''https://api.tibiadata.com/v4/world/Antica'',
       HttpGet ''https://api.tibiadata.com/v4/boostablebosses'',
       HttpGet ''https://api.tibiadata.com/v4/creature/wolf'',
       ChannelSend Creature (Channel 1) (JStr ''Wolf'') Forbidden,
       HttpGet ''https://api.tibiadata.com/v4/creature/ferumbras'',
       ChannelSend Boss (Channel 2) (JStr ''Ferumbras'') SendOk]) =
      Some \<lparr>boosted_creature = JStr ''Wolf'', boosted_boss = JStr ''Ferumbras'',
        timestamp = JStr ''2024-05-01T08:00:00Z''\<rparr>"
    by (simp add: summary_anywhere)
  from posting_decision [OF forced_run_without_creature a]
    posting_decision [OF forbidden_second_run b]
  show ?thesis
    by (simp add: forced_run_without_creature forbidden_second_run)
qed

text \<open>
  Claim C2 as stated fails: it lets force alone fire a notification, but a forced call
  whose summary has no creature posts no creature and sends nothing for that slot.
\<close>

theorem force_without_value_counterexample:
  "map_option boosted_creature (fst (get_boosted_creatures (bot_env bosses_only_api send_ok) []))
     = Some JNull \<and>
   creature_posted (fst (post_boosted_updates (bot_env bosses_only_api send_ok) True
      (init_bot 1 2) [])) = False \<and>
   send_outcomes Creature (snd (snd (post_boosted_updates (bot_env bosses_only_api send_ok) True
      (init_bot 1 2) []))) = [] \<and>
   errors (fst (post_boosted_updates (bot_env bosses_only_api send_ok) True
      (init_bot 1 2) [])) = []"
  by (simp add: forced_run_without_creature summary_without_creature)

subsection \<open>The boosted summary\<close>

lemma lookup_nonempty: "fmlookup m k = Some v \<Longrightarrow> fmdom m \<noteq> {||}"
  by (auto dest: fmdomI)

lemma read_boosted_creature_object:
  "fmlookup m ''world'' = Some (JObj m1) \<Longrightarrow>
   fmlookup m1 ''world_information'' = Some (JObj m2) \<Longrightarrow>
   read_boosted_creature (JObj m) =
     Inr (case fmlookup m2 ''boosted_creature'' of Some v \<Rightarrow> v | None \<Rightarrow> JNull)"
  using lookup_nonempty [of m "''world''"] fmdomI [of m "''world''"]
    fmdomI [of m1 "''world_information''"]
  by (simp add: read_boosted_creature_def split: option.splits)

lemma read_boosted_boss_object:
  "fmlookup m ''boostable_bosses'' = Some (JObj m1) \<Longrightarrow>
   fmlookup m1 ''boosted'' = Some (JObj m2) \<Longrightarrow>
   fmlookup m2 ''name'' = Some v \<Longrightarrow>
   read_boosted_boss (JObj m) = Inr v"
  using lookup_nonempty [of m "''boostable_bosses''"] fmdomI [of m "''boostable_bosses''"]
    fmdomI [of m1 "''boosted''"] lookup_nonempty [of m2 "''name''"]
  by (simp add: read_boosted_boss_def split: option.splits)

lemma read_timestamp_object:
  "fmdom m \<noteq> {||} \<Longrightarrow>
   read_timestamp (JObj m) =
     (case fmlookup m ''information'' of
        None \<Rightarrow> Inr JNull
      | Some i \<Rightarrow> py_get i ''timestamp'' JNull)"
  by (auto simp: read_timestamp_def split: option.splits)

text \<open>
  Claim C6, as the code has it. Let the world request return \<open>world_data\<close> and the bosses
  request \<open>bosses_data\<close>. When the three reads raise nothing, \<^verbatim>\<open>get_boosted_creatures\<close>
  returns \<^verbatim>\<open>None\<close> exactly when neither value is truthy, and otherwise the summary of the
  creature read, the boss read and the timestamp read. When a read raises, the result is
  \<^verbatim>\<open>None\<close> whatever the other value is (after the world request alone when the creature
  read raises). A failed request (\<^verbatim>\<open>None\<close>) reads as an absent value and raises nothing,
  so one obtained value with the other request failed gives a summary with the other
  field absent. For a world response that is an object with \<^verbatim>\<open>world.world_information\<close>, the
  creature is its \<^verbatim>\<open>boosted_creature\<close> and the timestamp is \<^verbatim>\<open>information.timestamp\<close> of
  the same response; for a bosses response with \<^verbatim>\<open>boostable_bosses.boosted.name\<close> the boss
  is that name.
\<close>

theorem summary_result:
  assumes "make_request env ''world/Antica'' 3 w = (world_data, w1)"
    and "make_request env ''boostablebosses'' 3 w1 = (bosses_data, w2)"
  shows
   "(\<forall>c b ts. read_boosted_creature world_data = Inr c \<longrightarrow>
        read_boosted_boss bosses_data = Inr b \<longrightarrow> read_timestamp world_data = Inr ts \<longrightarrow>
        get_boosted_creatures env w =
          (if truthy c \<or> truthy b
           then Some \<lparr>boosted_creature = c, boosted_boss = b, timestamp = ts\<rparr>
           else None, w2)) \<and>
    (\<forall>e. read_boosted_creature world_data = Inl e \<longrightarrow>
        get_boosted_creatures env w = (None, w1)) \<and>
    (\<forall>c e. read_boosted_creature world_data = Inr c \<longrightarrow>
        read_boosted_boss bosses_data = Inl e \<longrightarrow>
        get_boosted_creatures env w = (None, w2)) \<and>
    (\<forall>c b e. read_boosted_creature world_data = Inr c \<longrightarrow>
        read_boosted_boss bosses_data = Inr b \<longrightarrow> read_timestamp world_data = Inl e \<longrightarrow>
        get_boosted_creatures env w = (None, w2)) \<and>
    read_boosted_creature JNull = Inr JNull \<and>
    read_boosted_boss JNull = Inr JNull \<and>
    read_timestamp JNull = Inr JNull \<and>
    (\<forall>m m1 m2. world_data = JObj m \<longrightarrow> fmlookup m ''world'' = Some (JObj m1) \<longrightarrow>
        fmlookup m1 ''world_information'' = Some (JObj m2) \<longrightarrow>
        read_boosted_creature world_data =
          Inr (case fmlookup m2 ''boosted_creature'' of Some v \<Rightarrow> v | None \<Rightarrow> JNull) \<and>
        read_timestamp world_data =
          (case fmlookup m ''information'' of
             None \<Rightarrow> Inr JNull
           | Some i \<Rightarrow> py_get i ''timestamp'' JNull)) \<and>
    (\<forall>m m1 m2 v. bosses_data = JObj m \<longrightarrow> fmlookup m ''boostable_bosses'' = Some (JObj m1) \<longrightarrow>
        fmlookup m1 ''boosted'' = Some (JObj m2) \<longrightarrow> fmlookup m2 ''name'' = Some v \<longrightarrow>
        read_boosted_boss bosses_data = Inr v)"
proof (intro conjI allI impI)
  fix c b ts
  assume "read_boosted_creature world_data = Inr c" "read_boosted_boss bosses_data = Inr b"
    "read_timestamp world_data = Inr ts"
  with assms show "get_boosted_creatures env w =
      (if truthy c \<or> truthy b
       then Some \<lparr>boosted_creature = c, boosted_boss = b, timestamp = ts\<rparr>
       else None, w2)"
    by (simp add: get_boosted_creatures_def)
next
  fix e assume "read_boosted_creature world_data = Inl e"
  with assms show "get_boosted_creatures env w = (None, w1)"
    by (simp add: get_boosted_creatures_def)
next
  fix c e assume "read_boosted_creature world_data = Inr c" "read_boosted_boss bosses_data = Inl e"
  with assms show "get_boosted_creatures env w = (None, w2)"
    by (simp add: get_boosted_creatures_def)
next
  fix c b e
  assume "read_boosted_creature world_data = Inr c" "read_boosted_boss bosses_data = Inr b"
    "read_timestamp world_data = Inl e"
  with assms show "get_boosted_creatures env w = (None, w2)"
    by (cases world_data) (simp_all add: get_boosted_creatures_def read_timestamp_def
        read_boosted_creature_def)
next
  show "read_boosted_creature JNull = Inr JNull" by (simp add: read_boosted_creature_def)
next
  show "read_boosted_boss JNull = Inr JNull" by (simp add: read_boosted_boss_def)
next
  show "read_timestamp JNull = Inr JNull" by (simp add: read_timestamp_def)
next
  fix m m1 m2
  assume "world_data = JObj m" "fmlookup m ''world'' = Some (JObj m1)"
    "fmlookup m1 ''world_information'' = Some (JObj m2)"
  then show "read_boosted_creature world_data =
      Inr (case fmlookup m2 ''boosted_creature'' of Some v \<Rightarrow> v | None \<Rightarrow> JNull)"
    by (simp add: read_boosted_creature_object)
next
  fix m m1 m2
  assume wd: "world_data = JObj m" and "fmlookup m ''world'' = Some (JObj m1)"
  hence "fmdom m \<noteq> {||}" by (auto dest: fmdomI)
  with wd show "read_timestamp world_data =
      (case fmlookup m ''information'' of
         None \<Rightarrow> Inr JNull
       | Some i \<Rightarrow> py_get i ''timestamp'' JNull)"
    by (simp add: read_timestamp_object)
next
  fix m m1 m2 v
  assume "bosses_data = JObj m" "fmlookup m ''boostable_bosses'' = Some (JObj m1)"
    "fmlookup m1 ''boosted'' = Some (JObj m2)" "fmlookup m2 ''name'' = Some v"
  then show "read_boosted_boss bosses_data = Inr v"
    by (simp add: read_boosted_boss_object)
qed

lemma world_down_requests:
  "make_request (bot_env world_down_api send_ok) ''world/Antica'' 3 [] =
     (JNull,
      [HttpGet ''https://api.tibiadata.com/v4/world/Antica'', Sleep 1,
       HttpGet ''https://api.tibiadata.com/v4/world/Antica'', Sleep 2,
       HttpGet ''https://api.tibiadata.com/v4/world/Antica'', Sleep 4,
       HttpGet ''https://api.tibiadata.com/v4/world/Antica''])"
  "make_request (bot_env world_down_api send_ok) ''boostablebosses'' 3
      [HttpGet ''https://api.tibiadata.com/v4/world/Antica'', Sleep 1,
       HttpGet ''https://api.tibiadata.com/v4/world/Antica'', Sleep 2,
       HttpGet ''https://api.tibiadata.com/v4/world/Antica'', Sleep 4,
       HttpGet ''https://api.tibiadata.com/v4/world/Antica''] =
     (boss_listing,
      [HttpGet ''https://api.tibiadata.com/v4/world/Antica'', Sleep 1,
       HttpGet ''https://api.tibiadata.com/v4/world/Antica'', Sleep 2,
       HttpGet ''https://api.tibiadata.com/v4/world/Antica'', Sleep 4,
       HttpGet ''https://api.tibiadata.com/v4/world/Antica'',
       HttpGet ''https://api.tibiadata.com/v4/boostablebosses''])"
  by (simp_all add: make_request_def make_request_loop.simps request_url_def BASE_URL_def
      num_gets_def bot_env_def world_down_api_def Let_def)

lemma tibia_requests:
  "make_request (bot_env tibia_api send_ok) ''world/Antica'' 3 [] =
     (wolf_world, [HttpGet ''https://api.tibiadata.com/v4/world/Antica''])"
  "make_request (bot_env tibia_api send_ok) ''boostablebosses'' 3
      [HttpGet ''https://api.tibiadata.com/v4/world/Antica''] =
     (boss_listing,
      [HttpGet ''https://api.tibiadata.com/v4/world/Antica'',
       HttpGet ''https://api.tibiadata.com/v4/boostablebosses''])"
  by (simp_all add: make_request_def make_request_loop.simps request_url_def BASE_URL_def
      num_gets_def bot_env_def tibia_api_def Let_def)

lemma scenario_reads:
  "read_boosted_creature wolf_world = Inr (JStr ''Wolf'')"
  "read_timestamp wolf_world = Inr (JStr ''2024-05-01T08:00:00Z'')"
  "read_boosted_boss boss_listing = Inr (JStr ''Ferumbras'')"
  "read_boosted_boss nameless_boss_listing = Inl KeyError"
  by (simp_all add: model_defs scenario_defs)

theorem summary_result_witness:
  "get_boosted_creatures (bot_env world_down_api send_ok) [] =
     (Some \<lparr>boosted_creature = JNull, boosted_boss = JStr ''Ferumbras'', timestamp = JNull\<rparr>,
      [HttpGet ''https://api.tibiadata.com/v4/world/Antica'', Sleep 1,
       HttpGet ''https://api.tibiadata.com/v4/world/Antica'', Sleep 2,
       HttpGet ''https://api.tibiadata.com/v4/world/Antica'', Sleep 4,
       HttpGet ''https://api.tibiadata.com/v4/world/Antica'',
       HttpGet ''https://api.tibiadata.com/v4/boostablebosses'']) \<and>
   get_boosted_creatures (bot_env tibia_api send_ok) [] =
     (Some \<lparr>boosted_creature = JStr ''Wolf'', boosted_boss = JStr ''Ferumbras'',
        timestamp = JStr ''2024-05-01T08:00:00Z''\<rparr>,
      [HttpGet ''https://api.tibiadata.com/v4/world/Antica'',
       HttpGet ''https://api.tibiadata.com/v4/boostablebosses''])"
proof -
  note down = summary_result [OF world_down_requests, THEN conjunct1, rule_format,
      of JNull "JStr ''Ferumbras''" JNull]
  note up = summary_result [OF tibia_requests, THEN conjunct1, rule_format,
      of "JStr ''Wolf''" "JStr ''Ferumbras''" "JStr ''2024-05-01T08:00:00Z''"]
  have "get_boosted_creatures (bot_env world_down_api send_ok) [] =
     (if truthy JNull \<or> truthy (JStr ''Ferumbras'')
      then Some \<lparr>boosted_creature = JNull, boosted_boss = JStr ''Ferumbras'', timestamp = JNull\<rparr>
      else None,
      [HttpGet ''https://api.tibiadata.com/v4/world/Antica'', Sleep 1,
       HttpGet ''https://api.tibiadata.com/v4/world/Antica'', Sleep 2,
       HttpGet ''https://api.tibiadata.com/v4/world/Antica'', Sleep 4,
       HttpGet ''https://api.tibiadata.com/v4/world/Antica'',
       HttpGet ''https://api.tibiadata.com/v4/boostablebosses''])"
    by (rule down) (simp_all add: scenario_reads read_boosted_creature_def read_timestamp_def)
  moreover
  have "get_boosted_creatures (bot_env tibia_api send_ok) [] =
     (if truthy (JStr ''Wolf'') \<or> truthy (JStr ''Ferumbras'')
      then Some \<lparr>boosted_creature = JStr ''Wolf'', boosted_boss = JStr ''Ferumbras'',
        timestamp = JStr ''2024-05-01T08:00:00Z''\<rparr>
      else None,
      [HttpGet ''https://api.tibiadata.com/v4/world/Antica'',
       HttpGet ''https://api.tibiadata.com/v4/boostablebosses''])"
    by (rule up) (simp_all add: scenario_reads)
  ultimately show ?thesis by simp
qed

text \<open>
  Claim C6 as stated fails: with the creature obtained and a bosses response whose boosted
  entry has no \<^verbatim>\<open>name\<close>, the \<^verbatim>\<open>KeyError\<close> is caught and the result is \<^verbatim>\<open>None\<close>, not a
  summary holding the creature.
\<close>

theorem creature_lost_with_malformed_bosses_counterexample:
  "read_boosted_creature (fst (make_request (bot_env nameless_boss_api send_ok)
      ''world/Antica'' 3 [])) = Inr (JStr ''Wolf'') \<and>
   get_boosted_creatures (bot_env nameless_boss_api send_ok) [] =
     (None,
      [HttpGet ''https://api.tibiadata.com/v4/world/Antica'',
       HttpGet ''https://api.tibiadata.com/v4/boostablebosses''])"
  by (simp add: model_defs scenario_defs)

subsection \<open>Runs with a successful send and with a moving timestamp\<close>


lemma ticking_summary:
  "get_boosted_creatures (bot_env ticking_api send) w =
    (Some \<lparr>boosted_creature = JStr ''Wolf'', boosted_boss = JStr ''Ferumbras'',
       timestamp = JNum (of_nat (num_gets w))\<rparr>,
     w @ [HttpGet ''https://api.tibiadata.com/v4/world/Antica'',
          HttpGet ''https://api.tibiadata.com/v4/boostablebosses''])"
  by (simp add: model_defs scenario_defs)

lemma ticking_run:
  "post_boosted_updates (bot_env ticking_api send_ok) False (init_bot 1 2) [] =
   (\<lparr>creature_posted = True, boss_posted = True, errors = []\<rparr>,
    \<lparr>creature_channel_id = 1, boss_channel_id = 2,
       last_posted_creature = JStr ''Wolf'', last_posted_boss = JStr ''Ferumbras''\<rparr>,
    [HttpGet ''https://api.tibiadata.com/v4/world/Antica'',
     HttpGet ''https://api.tibiadata.com/v4/boostablebosses'',
     HttpGet ''https://api.tibiadata.com/v4/creature/wolf'',
     ChannelSend Creature (Channel 1) (JStr ''Wolf'') SendOk,
     HttpGet ''https://api.tibiadata.com/v4/creature/ferumbras'',
     ChannelSend Boss (Channel 2) (JStr ''Ferumbras'') SendOk])"
  by (simp add: model_defs scenario_defs)

lemma ticking_second_run:
  "post_boosted_updates (bot_env ticking_api send_ok) False
     \<lparr>creature_channel_id = 1, boss_channel_id = 2,
       last_posted_creature = JStr ''Wolf'', last_posted_boss = JStr ''Ferumbras''\<rparr>
     [HttpGet ''https://api.tibiadata.com/v4/world/Antica'',
      HttpGet ''https://api.tibiadata.com/v4/boostablebosses'',
      HttpGet ''https://api.tibiadata.com/v4/creature/wolf'',
      ChannelSend Creature (Channel 1) (JStr ''Wolf'') SendOk,
      HttpGet ''https://api.tibiadata.com/v4/creature/ferumbras'',
      ChannelSend Boss (Channel 2) (JStr ''Ferumbras'') SendOk] =
   (\<lparr>creature_posted = False, boss_posted = False, errors = []\<rparr>,
    \<lparr>creature_channel_id = 1, boss_channel_id = 2,
       last_posted_creature = JStr ''Wolf'', last_posted_boss = JStr ''Ferumbras''\<rparr>,
    [HttpGet ''https://api.tibiadata.com/v4/world/Antica'',
     HttpGet ''https://api.tibiadata.com/v4/boostablebosses'',
     HttpGet ''https://api.tibiadata.com/v4/creature/wolf'',
     ChannelSend Creature (Channel 1) (JStr ''Wolf'') SendOk,
     HttpGet ''https://api.tibiadata.com/v4/creature/ferumbras'',
     ChannelSend Boss (Channel 2) (JStr ''Ferumbras'') SendOk,
     HttpGet ''https://api.tibiadata.com/v4/world/Antica'',
     HttpGet ''https://api.tibiadata.com/v4/boostablebosses''])"
  by (simp add: model_defs scenario_defs)

subsection \<open>A refused send\<close>

text \<open>
  Claim C1, at a run of the code. The bot has both channels configured and has posted
  nothing; the API reports Wolf and Ferumbras; the send to the creature channel raises
  \<^verbatim>\<open>discord.Forbidden\<close>, which \<^verbatim>\<open>_post_creature_update\<close> catches and logs. The claim requires
  the creature not to be reported posted, an error in the result and
  \<^verbatim>\<open>last_posted_creature\<close> unchanged. The code reports the creature posted with no error and
  stores the name, so that the next unforced call skips the creature and makes no further
  send: the notification is lost.
\<close>

theorem refused_send_is_reported_posted:
  "send_outcomes Creature (snd (snd (post_boosted_updates
      (bot_env tibia_api send_forbidden_once) False (init_bot 1 2) []))) = [Forbidden] \<and>
   creature_posted (fst (post_boosted_updates (bot_env tibia_api send_forbidden_once) False
      (init_bot 1 2) [])) = True \<and>
   errors (fst (post_boosted_updates (bot_env tibia_api send_forbidden_once) False
      (init_bot 1 2) [])) = [] \<and>
   last_posted_creature (init_bot 1 2) = JNull \<and>
   last_posted_creature (fst (snd (post_boosted_updates (bot_env tibia_api send_forbidden_once)
      False (init_bot 1 2) []))) = JStr ''Wolf'' \<and>
   creature_posted (fst (post_boosted_updates (bot_env tibia_api send_forbidden_once) False
      (fst (snd (post_boosted_updates (bot_env tibia_api send_forbidden_once) False
         (init_bot 1 2) [])))
      (snd (snd (post_boosted_updates (bot_env tibia_api send_forbidden_once) False
         (init_bot 1 2) []))))) = False \<and>
   send_outcomes Creature (snd (snd (post_boosted_updates
      (bot_env tibia_api send_forbidden_once) False
      (fst (snd (post_boosted_updates (bot_env tibia_api send_forbidden_once) False
         (init_bot 1 2) [])))
      (snd (snd (post_boosted_updates (bot_env tibia_api send_forbidden_once) False
         (init_bot 1 2) [])))))) = [Forbidden]"
  by (simp add: forbidden_run forbidden_second_run init_bot_fields)

subsection \<open>A failing creature slot and the boss slot\<close>




subsection \<open>Two calls in succession\<close>

lemma second_call_flags:
  assumes "post_boosted_updates env1 False self w = (r1, self1, w1)"
    and "post_boosted_updates env2 False self1 w1 = (r2, self2, w2)"
    and "map_option boosted_creature (fst (get_boosted_creatures env2 w1)) =
         map_option boosted_creature (fst (get_boosted_creatures env1 w))"
    and "map_option boosted_boss (fst (get_boosted_creatures env2 w1)) =
         map_option boosted_boss (fst (get_boosted_creatures env1 w))"
  shows "\<not> (creature_posted r1 \<and> creature_posted r2) \<and>
         \<not> (boss_posted r1 \<and> boss_posted r2) \<and>
         (errors r1 = [] \<longrightarrow> \<not> creature_posted r2 \<and> \<not> boss_posted r2 \<and> self2 = self1 \<and>
            errors r2 = [] \<and>
            send_outcomes Creature w2 = send_outcomes Creature w1 \<and>
            send_outcomes Boss w2 = send_outcomes Boss w1)"
  using assms(1)
proof (cases rule: run_cases)
  case no_summary
  from assms(2) show ?thesis
    by (cases rule: run_cases) (use no_summary assms(3,4) in auto)
next
  case (creature_raised data e)
  from assms(2) show ?thesis
    by (cases rule: run_cases) (use creature_raised assms(3,4) in auto)
next
  case (boss_raised data e)
  from assms(2) show ?thesis
    by (cases rule: run_cases) (use boss_raised assms(3,4) in \<open>auto split: if_splits\<close>)
next
  case (completed data)
  from assms(2) show ?thesis
    by (cases rule: run_cases) (use completed assms(3,4) in \<open>auto split: if_splits\<close>)
qed

text \<open>
  Claim C7, as the code has it. For two unforced calls in succession that observe the same
  creature value and the same boss value (the timestamp of the summary may differ): no slot
  is reported posted by both calls, and at most one send per slot succeeds over the two
  calls. When the first call records no error, the second reports both slots skipped,
  records no error, changes no attribute and makes no send.
\<close>

theorem repeated_call_posts_once:
  assumes "post_boosted_updates env1 False self w = (r1, self1, w1)"
    and "post_boosted_updates env2 False self1 w1 = (r2, self2, w2)"
    and "map_option boosted_creature (fst (get_boosted_creatures env2 w1)) =
         map_option boosted_creature (fst (get_boosted_creatures env1 w))"
    and "map_option boosted_boss (fst (get_boosted_creatures env2 w1)) =
         map_option boosted_boss (fst (get_boosted_creatures env1 w))"
  shows "\<not> (creature_posted r1 \<and> creature_posted r2) \<and>
         \<not> (boss_posted r1 \<and> boss_posted r2) \<and>
         successful_sends Creature w2 \<le> successful_sends Creature w + 1 \<and>
         successful_sends Boss w2 \<le> successful_sends Boss w + 1 \<and>
         (errors r1 = [] \<longrightarrow>
            \<not> creature_posted r2 \<and> \<not> boss_posted r2 \<and> errors r2 = [] \<and> self2 = self1 \<and>
            send_outcomes Creature w2 = send_outcomes Creature w1 \<and>
            send_outcomes Boss w2 = send_outcomes Boss w1)"
proof -
  note flags = second_call_flags [OF assms]
  from run_sends [OF assms(1)] run_sends [OF assms(2)] flags
  have "successful_sends Creature w2 \<le> successful_sends Creature w + 1"
    and "successful_sends Boss w2 \<le> successful_sends Boss w + 1"
    by auto
  with flags show ?thesis by blast
qed

theorem repeated_call_posts_once_witness:
  "fst (get_boosted_creatures (bot_env ticking_api send_ok) []) \<noteq>
   fst (get_boosted_creatures (bot_env ticking_api send_ok)
      (snd (snd (post_boosted_updates (bot_env ticking_api send_ok) False (init_bot 1 2) [])))) \<and>
   errors (fst (post_boosted_updates (bot_env ticking_api send_ok) False (init_bot 1 2) [])) = [] \<and>
   creature_posted (fst (post_boosted_updates (bot_env ticking_api send_ok) False
      (init_bot 1 2) [])) \<and>
   \<not> creature_posted (fst (post_boosted_updates (bot_env ticking_api send_ok) False
      (fst (snd (post_boosted_updates (bot_env ticking_api send_ok) False (init_bot 1 2) [])))
      (snd (snd (post_boosted_updates (bot_env ticking_api send_ok) False (init_bot 1 2) []))))) \<and>
   \<not> boss_posted (fst (post_boosted_updates (bot_env ticking_api send_ok) False
      (fst (snd (post_boosted_updates (bot_env ticking_api send_ok) False (init_bot 1 2) [])))
      (snd (snd (post_boosted_updates (bot_env ticking_api send_ok) False (init_bot 1 2) []))))) \<and>
   successful_sends Creature (snd (snd (post_boosted_updates (bot_env ticking_api send_ok) False
      (fst (snd (post_boosted_updates (bot_env ticking_api send_ok) False (init_bot 1 2) [])))
      (snd (snd (post_boosted_updates (bot_env ticking_api send_ok) False
         (init_bot 1 2) [])))))) = 1"
proof -
  let ?w1 = "[HttpGet ''https://api.tibiadata.com/v4/world/Antica'',
      HttpGet ''https://api.tibiadata.com/v4/boostablebosses'',
      HttpGet ''https://api.tibiadata.com/v4/creature/wolf'',
      ChannelSend Creature (Channel 1) (JStr ''Wolf'') SendOk,
      HttpGet ''https://api.tibiadata.com/v4/creature/ferumbras'',
      ChannelSend Boss (Channel 2) (JStr ''Ferumbras'') SendOk]"
  have c: "map_option boosted_creature (fst (get_boosted_creatures (bot_env ticking_api send_ok) ?w1))
      = map_option boosted_creature (fst (get_boosted_creatures (bot_env ticking_api send_ok) []))"
    by (simp add: ticking_summary)
  have b: "map_option boosted_boss (fst (get_boosted_creatures (bot_env ticking_api send_ok) ?w1))
      = map_option boosted_boss (fst (get_boosted_creatures (bot_env ticking_api send_ok) []))"
    by (simp add: ticking_summary)
  from repeated_call_posts_once [OF ticking_run ticking_second_run c b]
  show ?thesis
    by (simp add: ticking_run ticking_second_run ticking_summary successful_sends_def num_gets_def)
qed

text \<open>
  Claim C7 as stated fails: when the first call ends in an exception (here the creature
  send raises a connection error, which no helper catches), nothing is stored, and the
  second call, on the same summary, posts both slots.
\<close>

theorem second_call_posts_after_error_counterexample:
  "fst (get_boosted_creatures (bot_env tibia_api send_reset_once)
      (snd (snd (post_boosted_updates (bot_env tibia_api send_reset_once) False
         (init_bot 1 2) [])))) =
   fst (get_boosted_creatures (bot_env tibia_api send_reset_once) []) \<and>
   creature_posted (fst (post_boosted_updates (bot_env tibia_api send_reset_once) False
      (init_bot 1 2) [])) = False \<and>
   creature_posted (fst (post_boosted_updates (bot_env tibia_api send_reset_once) False
      (fst (snd (post_boosted_updates (bot_env tibia_api send_reset_once) False
         (init_bot 1 2) [])))
      (snd (snd (post_boosted_updates (bot_env tibia_api send_reset_once) False
         (init_bot 1 2) []))))) = True \<and>
   boss_posted (fst (post_boosted_updates (bot_env tibia_api send_reset_once) False
      (fst (snd (post_boosted_updates (bot_env tibia_api send_reset_once) False
         (init_bot 1 2) [])))
      (snd (snd (post_boosted_updates (bot_env tibia_api send_reset_once) False
         (init_bot 1 2) []))))) = True"
  by (simp add: reset_run reset_second_run summary_anywhere)

subsection \<open>The details request\<close>

lemma ascii_lower_char_other:
  "c \<notin> set ''ABCDEFGHIJKLMNOPQRSTUVWXYZ'' \<Longrightarrow> ascii_lower_char c = c"
proof -
  assume "c \<notin> set ''ABCDEFGHIJKLMNOPQRSTUVWXYZ''"
  hence "map_of (zip ''ABCDEFGHIJKLMNOPQRSTUVWXYZ'' ''abcdefghijklmnopqrstuvwxyz'') c = None"
    by (subst map_of_zip_is_None) simp_all
  then show ?thesis unfolding ascii_lower_char_def by simp
qed

lemma ascii_lower_alphabet:
  "ascii_lower ''ABCDEFGHIJKLMNOPQRSTUVWXYZ'' = ''abcdefghijklmnopqrstuvwxyz''"
  by (simp add: ascii_lower_def ascii_lower_char_def)

lemma replace_spaces_nth:
  "i < length s \<Longrightarrow>
   replace_spaces s ! i = (if s ! i = CHR '' '' then CHR ''_'' else s ! i)"
  by (simp add: replace_spaces_def)

lemma replace_spaces_length: "length (replace_spaces s) = length s"
  by (simp add: replace_spaces_def)

lemma replace_spaces_ascii: "is_ascii s \<Longrightarrow> is_ascii (replace_spaces s)"
  by (induction s) (simp_all add: is_ascii_def replace_spaces_def)

lemma loop_first_get:
  "\<exists>evs. snd (make_request_loop env url retries 0 w) = w @ HttpGet url # evs \<and>
         fetch_only [url] evs"
proof (cases "\<exists>d. http_get env (num_gets w) url = Response 200 (Parsed d)")
  case True
  then obtain d where "http_get env (num_gets w) url = Response 200 (Parsed d)" by blast
  from loop_hit [of 0 retries env w url d] this show ?thesis by simp
next
  case False
  hence miss: "\<forall>d. http_get env (num_gets w) url \<noteq> Response 200 (Parsed d)" by simp
  from loop_events [of env url retries "Suc 0" "w @ [HttpGet url, Sleep (2 ^ 0)]"]
  obtain evs1 where e1: "snd (make_request_loop env url retries (Suc 0)
      (w @ [HttpGet url, Sleep (2 ^ 0)])) = (w @ [HttpGet url, Sleep (2 ^ 0)]) @ evs1"
    "fetch_only [url] evs1" by blast
  from loop_events [of env url retries "Suc 0" "w @ [HttpGet url]"]
  obtain evs2 where e2: "snd (make_request_loop env url retries (Suc 0)
      (w @ [HttpGet url])) = (w @ [HttpGet url]) @ evs2"
    "fetch_only [url] evs2" by blast
  from loop_miss [of 0 retries env w url] miss
  have "make_request_loop env url retries 0 w =
      make_request_loop env url retries (Suc 0) (w @ [HttpGet url, Sleep (2 ^ 0)]) \<or>
    make_request_loop env url retries 0 w =
      make_request_loop env url retries (Suc 0) (w @ [HttpGet url])" by simp
  then show ?thesis
  proof
    assume "make_request_loop env url retries 0 w =
      make_request_loop env url retries (Suc 0) (w @ [HttpGet url, Sleep (2 ^ 0)])"
    with e1 have "snd (make_request_loop env url retries 0 w) =
        w @ HttpGet url # (Sleep (2 ^ 0) # evs1) \<and>
        fetch_only [url] (Sleep (2 ^ 0) # evs1)" by simp
    then show ?thesis by blast
  next
    assume "make_request_loop env url retries 0 w =
      make_request_loop env url retries (Suc 0) (w @ [HttpGet url])"
    with e2 have "snd (make_request_loop env url retries 0 w) = w @ HttpGet url # evs2
        \<and> fetch_only [url] evs2" by simp
    then show ?thesis by blast
  qed
qed

lemma get_creature_details_trace:
  "s \<noteq> [] \<Longrightarrow> snd (get_creature_details env (JStr s) w) =
     snd (make_request env (''creature/'' @ formatted_name env s) 3 w)"
  by (simp add: get_creature_details_def split_beta split: sum.splits bool.splits)

lemma get_creature_details_unwrapped:
  "s \<noteq> [] \<Longrightarrow>
   py_contains ''creature'' (fst (make_request env (''creature/'' @ formatted_name env s) 3 w))
     \<noteq> Inr True \<Longrightarrow>
   fst (get_creature_details env (JStr s) w) = JNull"
  by (simp add: get_creature_details_def split_beta split: sum.splits bool.splits)

text \<open>
  Claim C5, as the code has it. \<^verbatim>\<open>get_creature_details\<close> replaces every space of the name
  by an underscore, keeping every other character and the length, then applies
  \<^verbatim>\<open>str.lower\<close>, and does not trim. For a non-empty name the first event is the GET of
  \<^verbatim>\<open>creature/\<close> followed by that formatted name, and every request of the call goes to
  that URL. Where \<^verbatim>\<open>str.lower\<close> acts on ASCII strings as it does in Python (the letters
  \<^verbatim>\<open>A\<close> to \<^verbatim>\<open>Z\<close> go to \<^verbatim>\<open>a\<close> to \<^verbatim>\<open>z\<close>, every other character is kept), the formatted name
  of an ASCII name is determined character by character, and \<^verbatim>\<open>Fire Elemental\<close> and
  \<^verbatim>\<open>fire_elemental\<close> both format to \<^verbatim>\<open>fire_elemental\<close>, hence request the same path. For
  \<^verbatim>\<open>None\<close> and for the empty string the result is \<^verbatim>\<open>None\<close> and the trace is unchanged: no
  request. When the response does not contain the wrapper key \<^verbatim>\<open>creature\<close>, the result
  is \<^verbatim>\<open>None\<close>.
\<close>

theorem details_request:
  "(s \<noteq> [] \<longrightarrow>
      (\<exists>evs. snd (get_creature_details env (JStr s) w) =
           w @ HttpGet (request_url (''creature/'' @ str_lower env (replace_spaces s))) # evs \<and>
         fetch_only [request_url (''creature/'' @ str_lower env (replace_spaces s))] evs)) \<and>
   length (replace_spaces s) = length s \<and>
   (\<forall>i<length s. replace_spaces s ! i = (if s ! i = CHR '' '' then CHR ''_'' else s ! i)) \<and>
   ((\<forall>t. is_ascii t \<longrightarrow> str_lower env t = ascii_lower t) \<longrightarrow>
      (is_ascii s \<longrightarrow>
         formatted_name env s =
           map (\<lambda>c. ascii_lower_char (if c = CHR '' '' then CHR ''_'' else c)) s) \<and>
      formatted_name env ''Fire Elemental'' = ''fire_elemental'' \<and>
      formatted_name env ''fire_elemental'' = ''fire_elemental'') \<and>
   ascii_lower ''ABCDEFGHIJKLMNOPQRSTUVWXYZ'' = ''abcdefghijklmnopqrstuvwxyz'' \<and>
   (\<forall>c. c \<notin> set ''ABCDEFGHIJKLMNOPQRSTUVWXYZ'' \<longrightarrow> ascii_lower_char c = c) \<and>
   get_creature_details env JNull w = (JNull, w) \<and>
   get_creature_details env (JStr []) w = (JNull, w) \<and>
   (s \<noteq> [] \<longrightarrow>
      py_contains ''creature''
        (fst (make_request env (''creature/'' @ str_lower env (replace_spaces s)) 3 w))
        \<noteq> Inr True \<longrightarrow>
      fst (get_creature_details env (JStr s) w) = JNull)"
proof (intro conjI impI allI)
  assume "s \<noteq> []"
  from get_creature_details_trace [OF this, of env w]
    loop_first_get [of env "request_url (''creature/'' @ formatted_name env s)" 3 w]
  show "\<exists>evs. snd (get_creature_details env (JStr s) w) =
           w @ HttpGet (request_url (''creature/'' @ str_lower env (replace_spaces s))) # evs \<and>
         fetch_only [request_url (''creature/'' @ str_lower env (replace_spaces s))] evs"
    by (simp only: make_request_def formatted_name_def)
next
  show "length (replace_spaces s) = length s" by (rule replace_spaces_length)
next
  fix i assume "i < length s"
  then show "replace_spaces s ! i = (if s ! i = CHR '' '' then CHR ''_'' else s ! i)"
    by (rule replace_spaces_nth)
next
  assume low: "\<forall>t. is_ascii t \<longrightarrow> str_lower env t = ascii_lower t" and "is_ascii s"
  hence "str_lower env (replace_spaces s) = ascii_lower (replace_spaces s)"
    using replace_spaces_ascii by blast
  then show "formatted_name env s =
      map (\<lambda>c. ascii_lower_char (if c = CHR '' '' then CHR ''_'' else c)) s"
    by (simp add: formatted_name_def ascii_lower_def replace_spaces_def)
next
  assume low: "\<forall>t. is_ascii t \<longrightarrow> str_lower env t = ascii_lower t"
  have "is_ascii (replace_spaces ''Fire Elemental'')"
    by (simp add: is_ascii_def replace_spaces_def)
  with low have "str_lower env (replace_spaces ''Fire Elemental'')
      = ascii_lower (replace_spaces ''Fire Elemental'')" by blast
  then show "formatted_name env ''Fire Elemental'' = ''fire_elemental''"
    by (simp add: formatted_name_def ascii_lower_def ascii_lower_char_def replace_spaces_def)
next
  assume low: "\<forall>t. is_ascii t \<longrightarrow> str_lower env t = ascii_lower t"
  have "is_ascii (replace_spaces ''fire_elemental'')"
    by (simp add: is_ascii_def replace_spaces_def)
  with low have "str_lower env (replace_spaces ''fire_elemental'')
      = ascii_lower (replace_spaces ''fire_elemental'')" by blast
  then show "formatted_name env ''fire_elemental'' = ''fire_elemental''"
    by (simp add: formatted_name_def ascii_lower_def ascii_lower_char_def replace_spaces_def)
next
  show "ascii_lower ''ABCDEFGHIJKLMNOPQRSTUVWXYZ'' = ''abcdefghijklmnopqrstuvwxyz''"
    by (rule ascii_lower_alphabet)
next
  fix c assume "c \<notin> set ''ABCDEFGHIJKLMNOPQRSTUVWXYZ''"
  then show "ascii_lower_char c = c" by (rule ascii_lower_char_other)
next
  show "get_creature_details env JNull w = (JNull, w)"
    by (simp add: get_creature_details_def)
next
  show "get_creature_details env (JStr []) w = (JNull, w)"
    by (simp add: get_creature_details_def)
next
  assume "s \<noteq> []"
    and "py_contains ''creature''
      (fst (make_request env (''creature/'' @ str_lower env (replace_spaces s)) 3 w))
      \<noteq> Inr True"
  then show "fst (get_creature_details env (JStr s) w) = JNull"
    using get_creature_details_unwrapped [of s env w] by (simp add: formatted_name_def)
qed

theorem details_request_witness:
  "is_ascii ''Fire Elemental'' \<and>
   snd (get_creature_details (bot_env tibia_api send_ok) (JStr ''Fire Elemental'') []) =
     [HttpGet ''https://api.tibiadata.com/v4/creature/fire_elemental''] \<and>
   snd (get_creature_details (bot_env tibia_api send_ok) (JStr ''fire_elemental'') []) =
     [HttpGet ''https://api.tibiadata.com/v4/creature/fire_elemental''] \<and>
   formatted_name (bot_env tibia_api send_ok) ''Fire Elemental'' = ''fire_elemental'' \<and>
   fst (get_creature_details (bot_env rate_limited_api send_ok) (JStr ''Fire Elemental'') [])
     = JNull"
proof -
  have low: "\<forall>t. is_ascii t \<longrightarrow> str_lower (bot_env tibia_api send_ok) t = ascii_lower t"
    by (simp add: bot_env_def)
  have e: "''Fire Elemental'' \<noteq> []" by simp
  have u: "py_contains ''creature'' (fst (make_request (bot_env rate_limited_api send_ok)
      (''creature/'' @ str_lower (bot_env rate_limited_api send_ok)
         (replace_spaces ''Fire Elemental'')) 3 [])) \<noteq> Inr True"
    by (simp add: model_defs scenario_defs sublist_code)
  from details_request [of "''Fire Elemental''" "bot_env tibia_api send_ok" "[]"] low
  have a: "formatted_name (bot_env tibia_api send_ok) ''Fire Elemental'' = ''fire_elemental''"
    by blast
  from details_request [of "''Fire Elemental''" "bot_env rate_limited_api send_ok" "[]"] e u
  have b: "fst (get_creature_details (bot_env rate_limited_api send_ok)
      (JStr ''Fire Elemental'') []) = JNull" by blast
  from a b show ?thesis by (simp add: model_defs scenario_defs is_ascii_def)
qed

text \<open>
  Claim C5 as stated fails in its trimming: for a name with a leading space the
  specification's normalisation gives \<open>bear\<close>, the code requests \<^verbatim>\<open>creature/_bear\<close>, which
  is not the path requested for the trimmed name.
\<close>

theorem no_trim_counterexample:
  "spec_normalize (bot_env tibia_api send_ok) '' Bear'' = ''bear'' \<and>
   formatted_name (bot_env tibia_api send_ok) '' Bear'' = ''_bear'' \<and>
   snd (get_creature_details (bot_env tibia_api send_ok) (JStr '' Bear'') []) =
     [HttpGet ''https://api.tibiadata.com/v4/creature/_bear''] \<and>
   snd (get_creature_details (bot_env tibia_api send_ok) (JStr ''Bear'') []) =
     [HttpGet ''https://api.tibiadata.com/v4/creature/bear'']"
  by (simp add: model_defs scenario_defs spec_normalize_def trim_def whitespace_def)

end
